theory Spec2Isabelle
  imports Main
begin

section \<open>Text of the corpus\<close>

text \<open>
  The analyzer works on Python \<^verbatim>\<open>str\<close> values, whose elements are Unicode code
  points (the keyword tables are CJK). A document string is therefore a list of code
  points. The labels the classifiers hand out are ASCII literals of the source and are kept
  as HOL strings.
\<close>

type_synonym uchar = nat
type_synonym ustring = "uchar list"

definition ustr :: "string \<Rightarrow> ustring" where
  \<comment> \<open>an ASCII literal of the source as a list of code points\<close>
  "ustr s = map of_char s"

fun join_sp :: "ustring list \<Rightarrow> ustring" where
  \<comment> \<open>\<^verbatim>\<open>' '.join(parts)\<close>\<close>
  "join_sp [] = []"
| "join_sp [x] = x"
| "join_sp (x # y # ys) = x @ [0x20] @ join_sp (y # ys)"

fun starts_with :: "ustring \<Rightarrow> ustring \<Rightarrow> bool" where
  \<comment> \<open>\<^verbatim>\<open>text.startswith(kw)\<close>\<close>
  "starts_with text [] = True"
| "starts_with [] (k # ks) = False"
| "starts_with (c # cs) (k # ks) = (c = k \<and> starts_with cs ks)"

fun occurs_in :: "ustring \<Rightarrow> ustring \<Rightarrow> bool" where
  \<comment> \<open>\<^verbatim>\<open>kw in text\<close> on two strings: \<open>kw\<close> occurs as a contiguous run of \<open>text\<close>\<close>
  "occurs_in kw [] = (kw = [])"
| "occurs_in kw (c # cs) = (starts_with (c # cs) kw \<or> occurs_in kw cs)"

definition ascii_lower :: "ustring \<Rightarrow> ustring" where
  \<comment> \<open>\<^verbatim>\<open>str.lower\<close> on text whose only cased characters are the ASCII letters\<close>
  "ascii_lower s = map (\<lambda>c. if 0x41 \<le> c \<and> c \<le> 0x5A then c + 0x20 else c) s"

section \<open>Keyword tables\<close>

text \<open>
  The three dictionaries of \<^verbatim>\<open>analyze_buddhist_metadata.py\<close>, in the order in which
  they are written (a Python dict iterates in insertion order). Every keyword is given by
  its code points, \<open>0x79AA\<close> being U+79AA. The keyword collections of the dynasty and
  origin tables are Python sets; they are listed here in the order of the source text.
\<close>

definition TRADITION_CLASSIFICATIONS :: "(string \<times> ustring list) list" where
  "TRADITION_CLASSIFICATIONS =
    [(''Chan/Zen'',
       [[0x79AA],
        [0x7985],
        [0x63, 0x68, 0x61, 0x6E],
        [0x7A, 0x65, 0x6E],
        [0x66F9, 0x6D1E],
        [0x81E8, 0x6FDF],
        [0x96F2, 0x9580],
        [0x6F59, 0x4EF0],
        [0x6CD5, 0x773C]]),
     (''Pure Land'',
       [[0x6DE8, 0x571F],
        [0x51C0, 0x571F],
        [0x51C0, 0x571F, 0x5B97],
        [0x6DE8, 0x571F, 0x5B97],
        [0x84EE, 0x793E],
        [0x5FF5, 0x4F5B, 0x6CD5, 0x9580],
        [0x963F, 0x5F4C, 0x9640]]),
     (''Tiantai'',
       [[0x5929, 0x53F0],
        [0x6CD5, 0x83EF],
        [0x6B62, 0x89C0],
        [0x667A, 0x8005],
        [0x5929, 0x53F0, 0x5B97]]),
     (''Huayan'',
       [[0x83EF, 0x56B4],
        [0x534E, 0x4E25],
        [0x8CE2, 0x9996],
        [0x6CD5, 0x85CF],
        [0x6F84, 0x89C0]]),
     (''Vinaya'',
       [[0x5F8B],
        [0x6BD7, 0x5948, 0x8036],
        [0x6212, 0x5F8B],
        [0x56DB, 0x5206, 0x5F8B],
        [0x4E94, 0x5206, 0x5F8B],
        [0x6469, 0x8A36, 0x50E7, 0x7947, 0x5F8B]]),
     (''Madhyamaka'',
       [[0x4E2D, 0x89C0],
        [0x4E2D, 0x8AD6],
        [0x9F8D, 0x6A39],
        [0x63D0, 0x5A46],
        [0x4E09, 0x8AD6]]),
     (''Yogacara'',
       [[0x745C, 0x4F3D],
        [0x552F, 0x8B58],
        [0x745C, 0x4F3D, 0x884C, 0x6D3E],
        [0x7121, 0x8457],
        [0x4E16, 0x89AA],
        [0x6210, 0x552F, 0x8B58]]),
     (''Esoteric'',
       [[0x5BC6],
        [0x5BC6, 0x6559],
        [0x9640, 0x7F85, 0x5C3C],
        [0x771F, 0x8A00],
        [0x58C7, 0x57CE],
        [0x66FC, 0x837C, 0x7F85]]),
     (''Pure Precepts'',
       [[0x83E9, 0x85A9, 0x6212],
        [0x68B5, 0x7DB2, 0x7D93],
        [0x5FC3, 0x5730, 0x6212]]),
     (''Pali/Theravada'',
       [[0x5357, 0x50B3],
        [0x5DF4, 0x5229],
        [0x54, 0x68, 0x65, 0x72, 0x61, 0x76, 0x101, 0x64, 0x61],
        [0x5C3C, 0x67EF, 0x8036],
        [0x5F8B, 0x85CF]]),
     (''Tibetan'',
       [[0x85CF, 0x50B3],
        [0x897F, 0x85CF],
        [0x54, 0x69, 0x62, 0x65, 0x74, 0x61, 0x6E],
        [0x7518, 0x73E0, 0x723E],
        [0x4E39, 0x73E0, 0x723E]]),
     (''Commentarial'',
       [[0x8A3B],
        [0x758F],
        [0x8A18],
        [0x91CB],
        [0x89E3],
        [0x8AD6],
        [0x9214]]),
     (''Historical'',
       [[0x53F2],
        [0x50B3],
        [0x8A8C],
        [0x9304],
        [0x8B5C]]),
     (''Liturgical'',
       [[0x5100, 0x8ECC],
        [0x6CD5, 0x4E8B],
        [0x61FA],
        [0x5100],
        [0x8AB2, 0x8AA6]])]"

definition DYNASTY_PERIODS :: "(string \<times> ustring list) list" where
  "DYNASTY_PERIODS =
    [(''Pre-Tang'',
       [[0x6F22],
        [0x9B4F],
        [0x6649],
        [0x5357, 0x5317, 0x671D],
        [0x5289, 0x5B8B],
        [0x5357, 0x9F4A],
        [0x6881],
        [0x9673],
        [0x5317, 0x9B4F],
        [0x5317, 0x9F4A],
        [0x5317, 0x5468],
        [0x968B]]),
     (''Tang'',
       [[0x5510]]),
     (''Song'',
       [[0x5B8B],
        [0x5317, 0x5B8B],
        [0x5357, 0x5B8B]]),
     (''Yuan'',
       [[0x5143]]),
     (''Ming'',
       [[0x660E]]),
     (''Qing'',
       [[0x6E05]]),
     (''Modern'',
       [[0x6C11, 0x570B],
        [0x4E2D, 0x83EF, 0x6C11, 0x570B],
        [0x73FE, 0x4EE3]]),
     (''Contemporary'',
       [[0x7576, 0x4EE3]])]"

definition GEOGRAPHIC_ORIGINS :: "(string \<times> ustring list) list" where
  "GEOGRAPHIC_ORIGINS =
    [(''India'',
       [[0x5370, 0x5EA6],
        [0x5929, 0x7AFA],
        [0x4E2D, 0x5929, 0x7AFA],
        [0x5317, 0x5929, 0x7AFA],
        [0x5357, 0x5929, 0x7AFA],
        [0x897F, 0x5929]]),
     (''Central Asia'',
       [[0x897F, 0x57DF],
        [0x4E2D, 0x4E9E],
        [0x9F9C, 0x8332],
        [0x4E8E, 0x95D0],
        [0x9AD8, 0x660C]]),
     (''China'',
       [[0x4E2D, 0x570B],
        [0x6F22, 0x5730],
        [0x4E2D, 0x571F],
        [0x5927, 0x5510],
        [0x5927, 0x5B8B],
        [0x5927, 0x5143],
        [0x5927, 0x660E],
        [0x5927, 0x6E05]]),
     (''Korea'',
       [[0x9AD8, 0x9E97],
        [0x65B0, 0x7F85],
        [0x767E, 0x6FDF],
        [0x671D, 0x9BAE]]),
     (''Japan'',
       [[0x65E5, 0x672C],
        [0x502D]]),
     (''Southeast Asia'',
       [[0x5357, 0x6D77],
        [0x6276, 0x5357],
        [0x771F, 0x81D8],
        [0x6797, 0x9091]])]"


section \<open>Classifiers\<close>

text \<open>
  \<^verbatim>\<open>classify_tradition\<close> lower-cases the text and every keyword with \<^verbatim>\<open>str.lower\<close>, a
  function of the interpreter; it is a parameter here, so that what is proved of the
  classifier holds whatever that function does. \<open>ascii_lower\<close> stands in for it where a
  concrete text is evaluated, on texts it agrees with \<^verbatim>\<open>str.lower\<close> on.
\<close>

fun any_keyword_in :: "ustring list \<Rightarrow> ustring \<Rightarrow> bool" where
  \<comment> \<open>the inner loop over one entry's keywords: stops at the first keyword found in the text\<close>
  "any_keyword_in [] text_content = False"
| "any_keyword_in (keyword # keywords) text_content =
     (if occurs_in keyword text_content then True else any_keyword_in keywords text_content)"

fun matched_traditions ::
  "(ustring \<Rightarrow> ustring) \<Rightarrow> (string \<times> ustring list) list \<Rightarrow> ustring \<Rightarrow> string list" where
  \<comment> \<open>the outer loop of \<^verbatim>\<open>classify_tradition\<close>: the labels added to the set \<^verbatim>\<open>traditions\<close>\<close>
  "matched_traditions lower [] text_content = []"
| "matched_traditions lower ((tradition, keywords) # rest) text_content =
     (if any_keyword_in (map lower keywords) text_content
      then tradition # matched_traditions lower rest text_content
      else matched_traditions lower rest text_content)"

definition classify_tradition ::
  "(ustring \<Rightarrow> ustring) \<Rightarrow> ustring list \<Rightarrow> ustring \<Rightarrow> ustring \<Rightarrow> string list" where
  \<comment> \<open>\<open>lower\<close> is \<^verbatim>\<open>str.lower\<close> of the interpreter. The source returns
      \<^verbatim>\<open>list(traditions)\<close> of a set, in the set's iteration order; the labels are listed
      here in table order.\<close>
  "classify_tradition lower titles author source =
     (let text_content = lower (join_sp (titles @ [author] @ [source]));
          traditions = matched_traditions lower TRADITION_CLASSIFICATIONS text_content
      in if traditions \<noteq> [] then traditions else [''General/Unspecified''])"

fun first_match :: "(string \<times> ustring list) list \<Rightarrow> ustring \<Rightarrow> string option" where
  \<comment> \<open>the nested loops of \<^verbatim>\<open>classify_period\<close> and \<^verbatim>\<open>classify_geographic\<close>: the label of the
      first entry, in table order, one of whose keywords occurs in the text\<close>
  "first_match [] text_content = None"
| "first_match ((label, keywords) # rest) text_content =
     (if any_keyword_in keywords text_content then Some label
      else first_match rest text_content)"

definition classify_period :: "ustring \<Rightarrow> ustring \<Rightarrow> ustring list \<Rightarrow> string" where
  "classify_period author source titles =
     (let text_content = join_sp ([author, source] @ titles)
      in case first_match DYNASTY_PERIODS text_content of
           Some period \<Rightarrow> period
         | None \<Rightarrow>
             if any_keyword_in [[0x6C11, 0x570B], [0x4E2D, 0x83EF, 0x6C11, 0x570B], [0x73FE, 0x4EE3]]
                  text_content
             then ''Modern''
             else if any_keyword_in [[0x7576, 0x4EE3], [0x73FE, 0x4EE3]] text_content
             then ''Contemporary''
             else if occurs_in [0x91CB] author \<and>
                     any_keyword_in [[0x5510], [0x5B8B], [0x5143], [0x660E], [0x6E05]] text_content
             then ''Traditional Chinese Buddhism''
             else ''Unknown Period'')"

definition classify_geographic :: "ustring \<Rightarrow> ustring \<Rightarrow> ustring list \<Rightarrow> string" where
  "classify_geographic author source titles =
     (let text_content = join_sp ([author, source] @ titles)
      in case first_match GEOGRAPHIC_ORIGINS text_content of
           Some region \<Rightarrow> region
         | None \<Rightarrow> ''Unknown Origin'')"

section \<open>Parsed documents\<close>

text \<open>
  \<^verbatim>\<open>xml.etree.ElementTree\<close> hands the analyzer a tree of elements: a tag, a dictionary of
  attributes, the text before the first child, and the children in document order. Tags
  and attribute names are the expanded names the parser produces, a namespace URI in
  braces before the local name.
\<close>

datatype element =
  Element (elem_tag: ustring) (elem_attrib: "(ustring \<times> ustring) list")
    (elem_text: "ustring option") (elem_children: "element list")

definition elem_get :: "element \<Rightarrow> ustring \<Rightarrow> ustring \<Rightarrow> ustring" where
  \<comment> \<open>\<^verbatim>\<open>elem.get(key, default)\<close>\<close>
  "elem_get e key dflt = (case map_of (elem_attrib e) key of Some v \<Rightarrow> v | None \<Rightarrow> dflt)"

fun elem_iter :: "element \<Rightarrow> element list" where
  \<comment> \<open>\<^verbatim>\<open>elem.iter()\<close>: the element, then its descendants in document order\<close>
  "elem_iter (Element t a x cs) = Element t a x cs # concat (map elem_iter cs)"

definition tei :: "string \<Rightarrow> ustring" where
  \<comment> \<open>\<^verbatim>\<open>tei:name\<close> under \<^verbatim>\<open>ns = {'tei': 'http://www.tei-c.org/ns/1.0'}\<close>\<close>
  "tei name = ustr ''{http://www.tei-c.org/ns/1.0}'' @ ustr name"

definition xml_ns_id :: ustring where
  \<comment> \<open>the name under which the parser stores an \<^verbatim>\<open>xml:id\<close> attribute\<close>
  "xml_ns_id = ustr ''{http://www.w3.org/XML/1998/namespace}id''"

definition findall_descendants :: "element \<Rightarrow> ustring \<Rightarrow> element list" where
  \<comment> \<open>\<^verbatim>\<open>root.findall('.//tag')\<close>: every element below \<open>root\<close> with that tag\<close>
  "findall_descendants root t =
     filter (\<lambda>e. elem_tag e = t) (concat (map elem_iter (elem_children root)))"

definition findall_child_of_descendants :: "element \<Rightarrow> ustring \<Rightarrow> ustring \<Rightarrow> element list" where
  \<comment> \<open>\<^verbatim>\<open>root.findall('.//outer/inner')\<close>\<close>
  "findall_child_of_descendants root outer inner =
     concat (map (\<lambda>d. filter (\<lambda>e. elem_tag e = inner) (elem_children d))
                 (findall_descendants root outer))"

definition first_of :: "element list \<Rightarrow> element option" where
  \<comment> \<open>\<^verbatim>\<open>find\<close> returns the first element \<^verbatim>\<open>findall\<close> would, or \<^verbatim>\<open>None\<close>\<close>
  "first_of es = (case es of [] \<Rightarrow> None | e # _ \<Rightarrow> Some e)"

definition is_space :: "uchar \<Rightarrow> bool" where
  \<comment> \<open>the characters \<^verbatim>\<open>str.strip()\<close> removes\<close>
  "is_space c \<longleftrightarrow>
     (0x09 \<le> c \<and> c \<le> 0x0D) \<or> (0x1C \<le> c \<and> c \<le> 0x20) \<or> c = 0x85 \<or> c = 0xA0 \<or>
     c = 0x1680 \<or> (0x2000 \<le> c \<and> c \<le> 0x200A) \<or> c = 0x2028 \<or> c = 0x2029 \<or>
     c = 0x202F \<or> c = 0x205F \<or> c = 0x3000"

definition strip :: "ustring \<Rightarrow> ustring" where
  "strip s = rev (dropWhile is_space (rev (dropWhile is_space s)))"

fun title_texts :: "element list \<Rightarrow> ustring list" where
  \<comment> \<open>the loop over \<^verbatim>\<open>title_elements\<close>: \<^verbatim>\<open>if title.text: titles.append(title.text.strip())\<close>\<close>
  "title_texts [] = []"
| "title_texts (title # rest) =
     (case elem_text title of
        None \<Rightarrow> title_texts rest
      | Some t \<Rightarrow> if t \<noteq> [] then strip t # title_texts rest else title_texts rest)"

definition stripped_text :: "element option \<Rightarrow> ustring" where
  \<comment> \<open>\<^verbatim>\<open>elem.text.strip() if elem is not None and elem.text else ""\<close>\<close>
  "stripped_text e =
     (case e of
        None \<Rightarrow> []
      | Some el \<Rightarrow> (case elem_text el of None \<Rightarrow> [] | Some t \<Rightarrow> if t \<noteq> [] then strip t else []))"

section \<open>Metadata extraction\<close>

text \<open>
  What the interpreter and the file system supply: \<^verbatim>\<open>str.lower\<close>, \<^verbatim>\<open>os.sep\<close>, and the
  outcome of \<^verbatim>\<open>ET.parse(path).getroot()\<close> for every path, \<open>None\<close> when parsing raises
  (the markup is malformed, or the file cannot be read).
\<close>

record host =
  str_lower :: "ustring \<Rightarrow> ustring"
  os_sep :: uchar
  ET_parse :: "ustring \<Rightarrow> element option"

text \<open>
  The canon registry is the dictionary \<^verbatim>\<open>load_canon_info\<close> reads from \<^verbatim>\<open>canons.json\<close>,
  from canon code to an entry. An entry that is a JSON object has fields; any other JSON
  value has no \<^verbatim>\<open>.get\<close>, and calling it raises \<^verbatim>\<open>AttributeError\<close>.
\<close>

datatype canon_entry = EntryDict "(ustring \<times> ustring) list" | EntryOther

type_synonym canon_info = "(ustring \<times> canon_entry) list"

datatype error = ParseError | AttributeError

record metadata =
  md_xml_id :: ustring
  md_canon_code :: "ustring option"
  md_canon_name :: ustring
  md_titles :: "ustring list"
  md_author :: ustring
  md_source :: ustring
  md_file_path :: ustring

fun split_on :: "uchar \<Rightarrow> ustring \<Rightarrow> ustring list" where
  \<comment> \<open>\<^verbatim>\<open>s.split(sep)\<close> for a separator of one character\<close>
  "split_on sep [] = [[]]"
| "split_on sep (c # cs) =
     (if c = sep then [] # split_on sep cs
      else (case split_on sep cs of [] \<Rightarrow> [[c]] | part # parts \<Rightarrow> (c # part) # parts))"

definition leading_upper :: "ustring \<Rightarrow> ustring option" where
  \<comment> \<open>\<^verbatim>\<open>re.match(r'^([A-Z]+)', xml_id)\<close> and its group 1\<close>
  "leading_upper s =
     (let run = takeWhile (\<lambda>c. 0x41 \<le> c \<and> c \<le> 0x5A) s
      in if run = [] then None else Some run)"

definition truthy :: "ustring option \<Rightarrow> bool" where
  \<comment> \<open>\<^verbatim>\<open>if canon_code\<close>: neither \<^verbatim>\<open>None\<close> nor the empty string\<close>
  "truthy c = (case c of None \<Rightarrow> False | Some s \<Rightarrow> s \<noteq> [])"

fun scan_parts :: "canon_info \<Rightarrow> ustring list \<Rightarrow> ustring option \<Rightarrow> ustring option" where
  \<comment> \<open>the loop over \<^verbatim>\<open>file_parts\<close>: the first part that is a key of the registry\<close>
  "scan_parts canon_info [] canon_code = canon_code"
| "scan_parts canon_info (part # parts) canon_code =
     (if map_of canon_info part \<noteq> None then Some part
      else scan_parts canon_info parts canon_code)"

definition canon_name_of :: "canon_info \<Rightarrow> ustring option \<Rightarrow> error + ustring" where
  \<comment> \<open>\<^verbatim>\<open>canon_info.get(canon_code, {}).get('title-zh', canon_code) if canon_code else 'Unknown'\<close>\<close>
  "canon_name_of canon_info canon_code =
     (case canon_code of
        None \<Rightarrow> Inr (ustr ''Unknown'')
      | Some code \<Rightarrow>
          if code = [] then Inr (ustr ''Unknown'')
          else (case map_of canon_info code of
                  None \<Rightarrow> Inr code
                | Some EntryOther \<Rightarrow> Inl AttributeError
                | Some (EntryDict entry) \<Rightarrow>
                    Inr (case map_of entry (ustr ''title-zh'') of
                           None \<Rightarrow> code | Some title \<Rightarrow> title)))"

definition derive_canon_code :: "host \<Rightarrow> canon_info \<Rightarrow> ustring \<Rightarrow> ustring \<Rightarrow> ustring option" where
  \<comment> \<open>the canon code from the identifier, else from the file path\<close>
  "derive_canon_code h canon_info xml_id xml_file_path =
     (let canon_code = (if xml_id \<noteq> [] then leading_upper xml_id else None)
      in if \<not> truthy canon_code
         then scan_parts canon_info (split_on (os_sep h) xml_file_path) canon_code
         else canon_code)"

definition extract_metadata :: "host \<Rightarrow> ustring \<Rightarrow> canon_info \<Rightarrow> error + metadata" where
  "extract_metadata h xml_file_path canon_info =
     (case ET_parse h xml_file_path of
        None \<Rightarrow> Inl ParseError
      | Some root \<Rightarrow>
          (let xml_id = elem_get root (ustr ''xml:id'') [];
               canon_code = derive_canon_code h canon_info xml_id xml_file_path;
               titles = title_texts (findall_descendants root (tei ''title''));
               author = stripped_text (first_of (findall_descendants root (tei ''author'')));
               source = stripped_text (first_of
                 (findall_child_of_descendants root (tei ''sourceDesc'') (tei ''bibl'')))
           in case canon_name_of canon_info canon_code of
                Inl e \<Rightarrow> Inl e
              | Inr canon_name \<Rightarrow>
                  Inr \<lparr>md_xml_id = xml_id, md_canon_code = canon_code,
                       md_canon_name = canon_name, md_titles = titles, md_author = author,
                       md_source = source, md_file_path = xml_file_path\<rparr>))"

section \<open>The corpus walk\<close>

record canon_group =
  cg_files :: "ustring list"
  cg_traditions :: "(string \<times> nat) list"
  cg_periods :: "(string \<times> nat) list"
  cg_origins :: "(string \<times> nat) list"

record detail =
  d_file :: ustring
  d_canon :: "ustring option"
  d_canon_name :: ustring
  d_traditions :: "string list"
  d_period :: string
  d_origin :: string
  d_author :: ustring
  d_main_title :: ustring

record results =
  summary :: "(string \<times> nat) list"
  by_canon :: "(ustring \<times> canon_group) list"
  by_tradition :: "(string \<times> ustring list) list"
  by_period :: "(string \<times> ustring list) list"
  by_origin :: "(string \<times> ustring list) list"
  detailed_analysis :: "detail list"

fun dd_update :: "'v \<Rightarrow> ('v \<Rightarrow> 'v) \<Rightarrow> 'k \<Rightarrow> ('k \<times> 'v) list \<Rightarrow> ('k \<times> 'v) list" where
  \<comment> \<open>\<^verbatim>\<open>d[k] = f(d[k])\<close> on a \<^verbatim>\<open>defaultdict\<close>: a missing key is created with the default
      first, at the end of the insertion order\<close>
  "dd_update dflt f k [] = [(k, f dflt)]"
| "dd_update dflt f k ((k', v) # rest) =
     (if k' = k then (k', f v) # rest else (k', v) # dd_update dflt f k rest)"

definition dd_append :: "'k \<Rightarrow> 'a \<Rightarrow> ('k \<times> 'a list) list \<Rightarrow> ('k \<times> 'a list) list" where
  \<comment> \<open>\<^verbatim>\<open>d[k].append(x)\<close> on a \<^verbatim>\<open>defaultdict(list)\<close>\<close>
  "dd_append k x d = dd_update [] (\<lambda>xs. xs @ [x]) k d"

definition counter_incr :: "'k \<Rightarrow> ('k \<times> nat) list \<Rightarrow> ('k \<times> nat) list" where
  \<comment> \<open>\<^verbatim>\<open>c[k] += 1\<close> on a \<^verbatim>\<open>Counter\<close>\<close>
  "counter_incr k c = dd_update 0 Suc k c"

definition dd_get :: "('k \<times> 'a list) list \<Rightarrow> 'k \<Rightarrow> 'a list" where
  \<comment> \<open>the list filed under a key; empty when the key was never touched\<close>
  "dd_get d k = (case map_of d k of None \<Rightarrow> [] | Some xs \<Rightarrow> xs)"

definition empty_group :: canon_group where
  "empty_group = \<lparr>cg_files = [], cg_traditions = [], cg_periods = [], cg_origins = []\<rparr>"

definition initial_results :: results where
  "initial_results =
     \<lparr>summary = [], by_canon = [], by_tradition = [], by_period = [], by_origin = [],
      detailed_analysis = []\<rparr>"

definition detail_record :: "metadata \<Rightarrow> string list \<Rightarrow> string \<Rightarrow> string \<Rightarrow> detail" where
  \<comment> \<open>the dictionary appended to \<^verbatim>\<open>results['detailed_analysis']\<close>\<close>
  "detail_record m traditions period origin =
     \<lparr>d_file = md_file_path m, d_canon = md_canon_code m, d_canon_name = md_canon_name m,
      d_traditions = traditions, d_period = period, d_origin = origin,
      d_author = md_author m,
      d_main_title = (case md_titles m of [] \<Rightarrow> [] | t # _ \<Rightarrow> t)\<rparr>"

definition file_under_canon ::
  "metadata \<Rightarrow> string list \<Rightarrow> string \<Rightarrow> string \<Rightarrow> canon_group \<Rightarrow> canon_group" where
  \<comment> \<open>the four updates of \<^verbatim>\<open>results['by_canon'][canon_code]\<close>\<close>
  "file_under_canon m traditions period origin g =
     g\<lparr>cg_files := cg_files g @ [md_file_path m],
       cg_traditions := fold counter_incr traditions (cg_traditions g),
       cg_periods := counter_incr period (cg_periods g),
       cg_origins := counter_incr origin (cg_origins g)\<rparr>"

definition fold_document :: "metadata \<Rightarrow> string list \<Rightarrow> string \<Rightarrow> string \<Rightarrow> results \<Rightarrow> results" where
  \<comment> \<open>the body of the loop after classification\<close>
  "fold_document m traditions period origin r =
     r\<lparr>by_canon :=
         (case md_canon_code m of
            None \<Rightarrow> by_canon r
          | Some canon_code \<Rightarrow>
              if canon_code = [] then by_canon r
              else dd_update empty_group (file_under_canon m traditions period origin)
                     canon_code (by_canon r)),
       by_tradition :=
         fold (\<lambda>tradition. dd_append tradition (md_file_path m)) traditions (by_tradition r),
       by_period := dd_append period (md_file_path m) (by_period r),
       by_origin := dd_append origin (md_file_path m) (by_origin r),
       detailed_analysis :=
         detailed_analysis r @ [detail_record m traditions period origin]\<rparr>"

definition process_file :: "host \<Rightarrow> canon_info \<Rightarrow> ustring \<Rightarrow> results \<times> nat \<Rightarrow> results \<times> nat" where
  \<comment> \<open>one iteration of the loop over \<^verbatim>\<open>xml_files\<close>; the state is \<^verbatim>\<open>results\<close> and the
      local counter \<^verbatim>\<open>processed\<close>\<close>
  "process_file h canon_info xml_file st =
     (let results = fst st; processed = snd st + 1
      in case extract_metadata h xml_file canon_info of
           Inl e \<Rightarrow> (results, processed)
         | Inr m \<Rightarrow>
             (let traditions = classify_tradition (str_lower h) (md_titles m) (md_author m) (md_source m);
                  period = classify_period (md_author m) (md_source m) (md_titles m);
                  origin = classify_geographic (md_author m) (md_source m) (md_titles m)
              in (fold_document m traditions period origin results, processed)))"

definition walk :: "host \<Rightarrow> canon_info \<Rightarrow> ustring list \<Rightarrow> results \<times> nat" where
  "walk h canon_info xml_files = fold (process_file h canon_info) xml_files (initial_results, 0)"

definition analyze_buddhist_metadata :: "host \<Rightarrow> canon_info \<Rightarrow> ustring list \<Rightarrow> results" where
  \<comment> \<open>\<open>canon_info\<close> is what \<^verbatim>\<open>load_canon_info()\<close> returned, \<open>xml_files\<close> the paths
      \<^verbatim>\<open>rglob('*.xml')\<close> found\<close>
  "analyze_buddhist_metadata h canon_info xml_files =
     (let results = fst (walk h canon_info xml_files)
      in results\<lparr>summary :=
           [(''total_files'', length xml_files),
            (''canons_found'', length (by_canon results)),
            (''traditions_found'', length (by_tradition results)),
            (''periods_found'', length (by_period results)),
            (''origins_found'', length (by_origin results))]\<rparr>)"

section \<open>Reading the result\<close>

definition canon_files :: "(ustring \<times> canon_group) list \<Rightarrow> ustring \<Rightarrow> ustring list" where
  \<comment> \<open>the files filed under a canon code; empty when the code has no group\<close>
  "canon_files d code = (case map_of d code of None \<Rightarrow> [] | Some g \<Rightarrow> cg_files g)"

definition dd_values :: "('k \<times> 'a list) list \<Rightarrow> 'a list" where
  \<comment> \<open>everything filed under some key\<close>
  "dd_values d = concat (map snd d)"

definition group_files :: "(ustring \<times> canon_group) list \<Rightarrow> ustring list" where
  \<comment> \<open>every path held by some canon group\<close>
  "group_files d = concat (map (\<lambda>kg. cg_files (snd kg)) d)"

definition by_canon_paths :: "results \<Rightarrow> ustring list" where
  \<comment> \<open>every path held by the index by canon\<close>
  "by_canon_paths r = group_files (by_canon r)"

definition indexed_paths :: "results \<Rightarrow> ustring list" where
  \<comment> \<open>every path held by one of the four grouping indices\<close>
  "indexed_paths r =
     by_canon_paths r @ dd_values (by_tradition r) @ dd_values (by_period r) @
     dd_values (by_origin r)"

definition detailed_paths :: "results \<Rightarrow> ustring list" where
  \<comment> \<open>the paths of the detail records\<close>
  "detailed_paths r = map d_file (detailed_analysis r)"

definition entry_matches :: "(string \<times> ustring list) list \<Rightarrow> nat \<Rightarrow> ustring \<Rightarrow> bool" where
  \<comment> \<open>some keyword of the table's entry number \<open>i\<close> occurs in the text\<close>
  "entry_matches table i text_content = any_keyword_in (snd (table ! i)) text_content"

definition counter_get :: "('k \<times> nat) list \<Rightarrow> 'k \<Rightarrow> nat" where
  \<comment> \<open>\<^verbatim>\<open>c[k]\<close> on a \<^verbatim>\<open>Counter\<close>: zero for a key never counted\<close>
  "counter_get c k = (case map_of c k of None \<Rightarrow> 0 | Some n \<Rightarrow> n)"

definition canon_group_at :: "(ustring \<times> canon_group) list \<Rightarrow> ustring \<Rightarrow> canon_group" where
  \<comment> \<open>the group under a canon code; the empty default group when the code has none\<close>
  "canon_group_at d code = (case map_of d code of None \<Rightarrow> empty_group | Some g \<Rightarrow> g)"

section \<open>Keywords and the separator\<close>

definition space_free :: "ustring list \<Rightarrow> bool" where
  \<comment> \<open>no keyword is empty or holds the space that \<^verbatim>\<open>join\<close> puts between the parts\<close>
  "space_free kws \<longleftrightarrow> list_all (\<lambda>kw. kw \<noteq> [] \<and> 0x20 \<notin> set kw) kws"

section \<open>The period classifier without its fallbacks\<close>

definition classify_period_table_only :: "ustring \<Rightarrow> ustring \<Rightarrow> ustring list \<Rightarrow> string" where
  \<comment> \<open>the simplified function: scan the dynasty table, default to the sentinel\<close>
  "classify_period_table_only author source titles =
     (case first_match DYNASTY_PERIODS (join_sp ([author, source] @ titles)) of
        Some period \<Rightarrow> period
      | None \<Rightarrow> ''Unknown Period'')"

section \<open>Growth of the result\<close>

definition grows :: "results \<Rightarrow> results \<Rightarrow> bool" where
  \<comment> \<open>everything filed in \<open>r\<close> is still filed, under the same key, in \<open>r'\<close>\<close>
  "grows r r' \<longleftrightarrow>
     (\<forall>k. set (dd_get (by_tradition r) k) \<subseteq> set (dd_get (by_tradition r') k)) \<and>
     (\<forall>k. set (dd_get (by_period r) k) \<subseteq> set (dd_get (by_period r') k)) \<and>
     (\<forall>k. set (dd_get (by_origin r) k) \<subseteq> set (dd_get (by_origin r') k)) \<and>
     (\<forall>c. set (canon_files (by_canon r) c) \<subseteq> set (canon_files (by_canon r') c)) \<and>
     set (detailed_analysis r) \<subseteq> set (detailed_analysis r')"

definition filed :: "metadata \<Rightarrow> string list \<Rightarrow> string \<Rightarrow> string \<Rightarrow> results \<Rightarrow> bool" where
  \<comment> \<open>the document is filed under each of its labels, has its detail record, and is filed
      under its canon code when it has one\<close>
  "filed m traditions period origin r \<longleftrightarrow>
     (\<forall>t \<in> set traditions. md_file_path m \<in> set (dd_get (by_tradition r) t)) \<and>
     md_file_path m \<in> set (dd_get (by_period r) period) \<and>
     md_file_path m \<in> set (dd_get (by_origin r) origin) \<and>
     detail_record m traditions period origin \<in> set (detailed_analysis r) \<and>
     (\<forall>code. md_canon_code m = Some code \<and> code \<noteq> [] \<longrightarrow>
        md_file_path m \<in> set (canon_files (by_canon r) code))"

definition tallies_grow :: "results \<Rightarrow> results \<Rightarrow> bool" where
  \<comment> \<open>no tally of a canon group is lower in \<open>r'\<close> than in \<open>r\<close>\<close>
  "tallies_grow r r' \<longleftrightarrow>
     (\<forall>c k. counter_get (cg_traditions (canon_group_at (by_canon r) c)) k
              \<le> counter_get (cg_traditions (canon_group_at (by_canon r') c)) k) \<and>
     (\<forall>c k. counter_get (cg_periods (canon_group_at (by_canon r) c)) k
              \<le> counter_get (cg_periods (canon_group_at (by_canon r') c)) k) \<and>
     (\<forall>c k. counter_get (cg_origins (canon_group_at (by_canon r) c)) k
              \<le> counter_get (cg_origins (canon_group_at (by_canon r') c)) k)"

definition tallied :: "metadata \<Rightarrow> string list \<Rightarrow> string \<Rightarrow> string \<Rightarrow> results \<Rightarrow> bool" where
  \<comment> \<open>the group of the document's canon code counts each of its labels\<close>
  "tallied m traditions period origin r \<longleftrightarrow>
     (\<forall>code. md_canon_code m = Some code \<and> code \<noteq> [] \<longrightarrow>
        (\<forall>t \<in> set traditions.
            0 < counter_get (cg_traditions (canon_group_at (by_canon r) code)) t) \<and>
        0 < counter_get (cg_periods (canon_group_at (by_canon r) code)) period \<and>
        0 < counter_get (cg_origins (canon_group_at (by_canon r) code)) origin)"

section \<open>A small corpus\<close>

text \<open>
  A registry with the Taisho canon under code \<open>T\<close>, and three files. Every path but two
  holds the Platform Sutra: root element \<^verbatim>\<open>TEI\<close> carrying \<^verbatim>\<open>xml:id="T0001_foo"\<close>, title
  U+516D U+7956 U+58C7 U+7D93, author U+91CB U+5B97 U+5BF6, and a source description whose
  \<^verbatim>\<open>bibl\<close> reads U+5B8B. \<^verbatim>\<open>plain.xml\<close> holds an empty \<^verbatim>\<open>TEI\<close> element without attributes,
  and \<^verbatim>\<open>broken.xml\<close> does not parse. The path separator is the slash.
\<close>

definition example_registry :: canon_info where
  "example_registry = [(ustr ''T'', EntryDict [(ustr ''title-zh'', [0x5927, 0x6B63, 0x85CF])])]"

definition example_document :: element where
  "example_document =
     Element (tei ''TEI'') [(xml_ns_id, ustr ''T0001_foo'')] None
       [Element (tei ''teiHeader'') [] None
          [Element (tei ''fileDesc'') [] None
             [Element (tei ''titleStmt'') [] None
                [Element (tei ''title'') [] (Some [0x516D, 0x7956, 0x58C7, 0x7D93]) [],
                 Element (tei ''author'') [] (Some [0x91CB, 0x5B97, 0x5BF6]) []],
              Element (tei ''sourceDesc'') [] None
                [Element (tei ''bibl'') [] (Some [0x5B8B]) []]]]]"

definition plain_document :: element where
  "plain_document = Element (tei ''TEI'') [] None []"

definition example_host :: host where
  "example_host =
     \<lparr>str_lower = ascii_lower, os_sep = 0x2F,
      ET_parse = (\<lambda>p. if p = ustr ''broken.xml'' then None
                       else if p = ustr ''plain.xml'' then Some plain_document
                       else Some example_document)\<rparr>"

section \<open>Facts about the classifiers\<close>

lemma any_keyword_in_iff:
  "any_keyword_in kws tc \<longleftrightarrow> (\<exists>kw \<in> set kws. occurs_in kw tc)"
  by (induction kws) auto

lemma first_match_None_iff:
  "first_match table tc = None \<longleftrightarrow> (\<forall>(l, kws) \<in> set table. \<not> any_keyword_in kws tc)"
  by (induction table tc rule: first_match.induct) auto

lemma first_match_None_entries:
  "(\<forall>i < length table. \<not> entry_matches table i tc) \<Longrightarrow> first_match table tc = None"
  unfolding first_match_None_iff entry_matches_def
  by (metis case_prodI2 in_set_conv_nth snd_conv)

lemma first_match_Some_label:
  "first_match table tc = Some l \<Longrightarrow> l \<in> set (map fst table)"
  by (induction table tc rule: first_match.induct) (auto split: if_splits)

lemma first_match_at:
  "i < length table \<Longrightarrow> any_keyword_in (snd (table ! i)) tc \<Longrightarrow>
   (\<forall>k < i. \<not> any_keyword_in (snd (table ! k)) tc) \<Longrightarrow>
   first_match table tc = Some (fst (table ! i))"
proof (induction table tc arbitrary: i rule: first_match.induct)
  case (1 tc)
  then show ?case by simp
next
  case (2 label kws rest tc)
  show ?case
  proof (cases i)
    case 0
    with 2 show ?thesis by simp
  next
    case (Suc n)
    with 2(3,4) have nohead: "\<not> any_keyword_in kws tc" by fastforce
    have "first_match rest tc = Some (fst (rest ! n))"
    proof (rule 2(1) [OF nohead])
      show "n < length rest" using 2(2) Suc by simp
      show "any_keyword_in (snd (rest ! n)) tc" using 2(3) Suc by simp
      show "\<forall>k<n. \<not> any_keyword_in (snd (rest ! k)) tc"
      proof (intro allI impI)
        fix k assume "k < n"
        then have "Suc k < i" using Suc by simp
        with 2(4) have "\<not> any_keyword_in (snd (((label, kws) # rest) ! Suc k)) tc" by blast
        then show "\<not> any_keyword_in (snd (rest ! k)) tc" by simp
      qed
    qed
    with nohead Suc show ?thesis by simp
  qed
qed

lemma first_match_least:
  assumes "i < length table" and "any_keyword_in (snd (table ! i)) tc"
  shows "\<exists>m \<le> i. any_keyword_in (snd (table ! m)) tc \<and>
           (\<forall>k < m. \<not> any_keyword_in (snd (table ! k)) tc) \<and>
           first_match table tc = Some (fst (table ! m))"
proof -
  define m where "m = (LEAST k. any_keyword_in (snd (table ! k)) tc)"
  have hit: "any_keyword_in (snd (table ! m)) tc"
    unfolding m_def using assms(2) by (rule LeastI)
  have le: "m \<le> i"
    unfolding m_def using assms(2) by (rule Least_le)
  have none: "\<forall>k < m. \<not> any_keyword_in (snd (table ! k)) tc"
    unfolding m_def using not_less_Least by blast
  have "first_match table tc = Some (fst (table ! m))"
    using le assms(1) hit none by (intro first_match_at) simp_all
  with hit le none show ?thesis by blast
qed

lemma distinct_labels:
  "distinct (map fst DYNASTY_PERIODS)" "distinct (map fst GEOGRAPHIC_ORIGINS)"
  by (simp_all add: DYNASTY_PERIODS_def GEOGRAPHIC_ORIGINS_def)

lemma first_match_not_later:
  assumes "distinct (map fst table)" and "i < j" and "j < length table"
    and "any_keyword_in (snd (table ! i)) tc"
  shows "first_match table tc \<noteq> Some (fst (table ! j))"
proof -
  from assms(2,3) have "i < length table" by simp
  from first_match_least [OF this assms(4)] obtain m where
    m: "m \<le> i" "first_match table tc = Some (fst (table ! m))" by blast
  have "m < length table" "m \<noteq> j" using m(1) assms(2,3) by simp_all
  then have "map fst table ! m \<noteq> map fst table ! j"
    using nth_eq_iff_index_eq [OF assms(1), of m j] assms(3) by simp
  then have "fst (table ! m) \<noteq> fst (table ! j)"
    using \<open>m < length table\<close> assms(3) by simp
  with m(2) show ?thesis by simp
qed

lemma matched_traditions_Nil_iff:
  "matched_traditions lower table tc = [] \<longleftrightarrow>
     (\<forall>(l, kws) \<in> set table. \<forall>kw \<in> set kws. \<not> occurs_in (lower kw) tc)"
  by (induction lower table tc rule: matched_traditions.induct)
     (auto simp: any_keyword_in_iff)

lemma matched_traditions_labels:
  "set (matched_traditions lower table tc) \<subseteq> set (map fst table)"
  by (induction lower table tc rule: matched_traditions.induct) auto

lemma sentinel_not_a_label:
  "''General/Unspecified'' \<notin> set (map fst TRADITION_CLASSIFICATIONS)"
  by (simp add: TRADITION_CLASSIFICATIONS_def)

lemma fallback_keywords_in_table:
  assumes "first_match DYNASTY_PERIODS tc = None"
  shows "\<not> any_keyword_in [[0x6C11, 0x570B], [0x4E2D, 0x83EF, 0x6C11, 0x570B], [0x73FE, 0x4EE3]] tc"
    and "\<not> any_keyword_in [[0x7576, 0x4EE3], [0x73FE, 0x4EE3]] tc"
    and "\<not> any_keyword_in [[0x5510], [0x5B8B], [0x5143], [0x660E], [0x6E05]] tc"
  using assms unfolding first_match_None_iff any_keyword_in_iff
  by (simp_all add: DYNASTY_PERIODS_def)

lemma classify_period_eq:
  "classify_period author source titles =
     (case first_match DYNASTY_PERIODS (join_sp ([author, source] @ titles)) of
        Some period \<Rightarrow> period | None \<Rightarrow> ''Unknown Period'')"
proof (cases "first_match DYNASTY_PERIODS (join_sp ([author, source] @ titles))")
  case None
  from fallback_keywords_in_table [OF None] None show ?thesis
    by (simp add: classify_period_def Let_def)
next
  case (Some p)
  then show ?thesis by (simp add: classify_period_def Let_def)
qed

subsection \<open>Text joined by spaces\<close>

lemma starts_with_sep:
  "sp \<notin> set kw \<Longrightarrow> starts_with (a @ sp # b) kw \<longleftrightarrow> starts_with a kw"
proof (induction a arbitrary: kw)
  case Nil
  then show ?case by (cases kw) auto
next
  case (Cons c a)
  then show ?case by (cases kw) auto
qed

lemma occurs_in_sep:
  "sp \<notin> set kw \<Longrightarrow> kw \<noteq> [] \<Longrightarrow>
   occurs_in kw (a @ sp # b) \<longleftrightarrow> occurs_in kw a \<or> occurs_in kw b"
proof (induction a)
  case Nil
  then show ?case by (cases kw) auto
next
  case (Cons c a)
  have "starts_with ((c # a) @ sp # b) kw \<longleftrightarrow> starts_with (c # a) kw"
    using Cons.prems(1) by (rule starts_with_sep)
  with Cons show ?case by auto
qed

lemma any_keyword_in_sep:
  "space_free kws \<Longrightarrow>
   any_keyword_in kws (a @ 0x20 # b) \<longleftrightarrow> any_keyword_in kws a \<or> any_keyword_in kws b"
  by (induction kws) (auto simp: space_free_def occurs_in_sep)

lemma first_match_cong:
  "(\<forall>e \<in> set table. any_keyword_in (snd e) t1 = any_keyword_in (snd e) t2) \<Longrightarrow>
   first_match table t1 = first_match table t2"
  by (induction table) auto

lemma matched_traditions_filter:
  "matched_traditions lower table tc =
     map fst (filter (\<lambda>e. any_keyword_in (map lower (snd e)) tc) table)"
  by (induction lower table tc rule: matched_traditions.induct) auto

lemma tables_space_free:
  "list_all (\<lambda>e. space_free (snd e)) DYNASTY_PERIODS"
  "list_all (\<lambda>e. space_free (snd e)) GEOGRAPHIC_ORIGINS"
  "list_all (\<lambda>e. space_free (map ascii_lower (snd e))) TRADITION_CLASSIFICATIONS"
  by (simp_all add: space_free_def DYNASTY_PERIODS_def GEOGRAPHIC_ORIGINS_def
        TRADITION_CLASSIFICATIONS_def ascii_lower_def)

lemma platform_sutra_no_period_keyword:
  "list_all (\<lambda>e. \<not> any_keyword_in (snd e) [0x91CB, 0x5B97, 0x5BF6] \<and>
                 \<not> any_keyword_in (snd e) [0x516D, 0x7956, 0x58C7, 0x7D93]) DYNASTY_PERIODS"
  "list_all (\<lambda>e. \<not> any_keyword_in (snd e) [0x91CB, 0x5B97, 0x5BF6] \<and>
                 \<not> any_keyword_in (snd e) [0x516D, 0x7956, 0x58C7, 0x7D93]) GEOGRAPHIC_ORIGINS"
  by (simp_all add: DYNASTY_PERIODS_def GEOGRAPHIC_ORIGINS_def)

lemma platform_sutra_tradition_keywords:
  "list_all (\<lambda>e. \<not> any_keyword_in (map ascii_lower (snd e)) [0x516D, 0x7956, 0x58C7, 0x7D93] \<and>
                 (any_keyword_in (map ascii_lower (snd e)) [0x91CB, 0x5B97, 0x5BF6] \<longleftrightarrow>
                    fst e = ''Commentarial'')) TRADITION_CLASSIFICATIONS"
  by (simp add: TRADITION_CLASSIFICATIONS_def ascii_lower_def)

lemma platform_sutra_first_match:
  assumes "list_all (\<lambda>e. space_free (snd e)) table"
    and "list_all (\<lambda>e. \<not> any_keyword_in (snd e) [0x91CB, 0x5B97, 0x5BF6] \<and>
                 \<not> any_keyword_in (snd e) [0x516D, 0x7956, 0x58C7, 0x7D93]) table"
  shows "first_match table
           (join_sp ([[0x91CB, 0x5B97, 0x5BF6], source] @ [[0x516D, 0x7956, 0x58C7, 0x7D93]]))
         = first_match table source"
proof (rule first_match_cong, rule ballI)
  fix e assume e: "e \<in> set table"
  with assms have sf: "space_free (snd e)"
    and no: "\<not> any_keyword_in (snd e) [0x91CB, 0x5B97, 0x5BF6]"
            "\<not> any_keyword_in (snd e) [0x516D, 0x7956, 0x58C7, 0x7D93]"
    by (auto simp: list_all_iff)
  have "join_sp ([[0x91CB, 0x5B97, 0x5BF6], source] @ [[0x516D, 0x7956, 0x58C7, 0x7D93]]) =
          [0x91CB, 0x5B97, 0x5BF6] @ 0x20 # (source @ 0x20 # [0x516D, 0x7956, 0x58C7, 0x7D93])"
    by simp
  then show "any_keyword_in (snd e)
               (join_sp ([[0x91CB, 0x5B97, 0x5BF6], source] @ [[0x516D, 0x7956, 0x58C7, 0x7D93]]))
             = any_keyword_in (snd e) source"
    using no by (simp only: any_keyword_in_sep [OF sf]) simp
qed

lemma first_match_entries:
  "first_match DYNASTY_PERIODS s =
     (if entry_matches DYNASTY_PERIODS 0 s then Some ''Pre-Tang''
      else if entry_matches DYNASTY_PERIODS 1 s then Some ''Tang''
      else if entry_matches DYNASTY_PERIODS 2 s then Some ''Song''
      else first_match (drop 3 DYNASTY_PERIODS) s)"
  by (simp add: DYNASTY_PERIODS_def entry_matches_def)

lemma song_entry: "occurs_in [0x5B8B] s \<Longrightarrow> entry_matches DYNASTY_PERIODS 2 s"
  by (simp add: DYNASTY_PERIODS_def entry_matches_def)

lemma first_match_None_entries_iff:
  "first_match table tc = None \<longleftrightarrow> (\<forall>i < length table. \<not> entry_matches table i tc)"
proof
  assume none: "first_match table tc = None"
  show "\<forall>i < length table. \<not> entry_matches table i tc"
  proof (intro allI impI)
    fix i assume "i < length table"
    then have "table ! i \<in> set table" by simp
    with none show "\<not> entry_matches table i tc"
      unfolding first_match_None_iff entry_matches_def by (auto simp: case_prod_beta)
  qed
next
  assume "\<forall>i < length table. \<not> entry_matches table i tc"
  then show "first_match table tc = None" by (rule first_match_None_entries)
qed

lemma platform_sutra_period:
  "classify_period [0x91CB, 0x5B97, 0x5BF6] source [[0x516D, 0x7956, 0x58C7, 0x7D93]] =
     (case first_match DYNASTY_PERIODS source of Some p \<Rightarrow> p | None \<Rightarrow> ''Unknown Period'')"
  by (simp only: classify_period_eq
        platform_sutra_first_match [OF tables_space_free(1) platform_sutra_no_period_keyword(1)])

lemma platform_sutra_origin:
  "classify_geographic [0x91CB, 0x5B97, 0x5BF6] source [[0x516D, 0x7956, 0x58C7, 0x7D93]] =
     (case first_match GEOGRAPHIC_ORIGINS source of Some r \<Rightarrow> r | None \<Rightarrow> ''Unknown Origin'')"
  unfolding classify_geographic_def Let_def
  by (simp only: platform_sutra_first_match [OF tables_space_free(2) platform_sutra_no_period_keyword(2)])

lemma platform_sutra_matched:
  assumes low: "lower (join_sp ([[0x516D, 0x7956, 0x58C7, 0x7D93]] @ [[0x91CB, 0x5B97, 0x5BF6]] @ [source]))
                 = join_sp ([[0x516D, 0x7956, 0x58C7, 0x7D93]] @ [[0x91CB, 0x5B97, 0x5BF6]] @ [lower source])"
    and kw: "\<forall>(tradition, kws) \<in> set TRADITION_CLASSIFICATIONS. \<forall>kw \<in> set kws.
               lower kw = ascii_lower kw"
  shows "matched_traditions lower TRADITION_CLASSIFICATIONS
           (lower (join_sp ([[0x516D, 0x7956, 0x58C7, 0x7D93]] @ [[0x91CB, 0x5B97, 0x5BF6]] @ [source])))
         = map fst (filter (\<lambda>e. fst e = ''Commentarial'' \<or>
                               any_keyword_in (map lower (snd e)) (lower source))
                      TRADITION_CLASSIFICATIONS)"
proof -
  have tc: "lower (join_sp ([[0x516D, 0x7956, 0x58C7, 0x7D93]] @ [[0x91CB, 0x5B97, 0x5BF6]] @ [source]))
          = [0x516D, 0x7956, 0x58C7, 0x7D93] @ 0x20 # ([0x91CB, 0x5B97, 0x5BF6] @ 0x20 # lower source)"
    unfolding low by simp
  have "filter (\<lambda>e. any_keyword_in (map lower (snd e))
                  ([0x516D, 0x7956, 0x58C7, 0x7D93] @ 0x20 # ([0x91CB, 0x5B97, 0x5BF6] @ 0x20 # lower source)))
           TRADITION_CLASSIFICATIONS
      = filter (\<lambda>e. fst e = ''Commentarial'' \<or> any_keyword_in (map lower (snd e)) (lower source))
           TRADITION_CLASSIFICATIONS"
  proof (rule filter_cong [OF refl])
    fix e assume e: "e \<in> set TRADITION_CLASSIFICATIONS"
    have lk: "map lower (snd e) = map ascii_lower (snd e)"
      using kw e by (auto simp: case_prod_beta)
    have sf: "space_free (map ascii_lower (snd e))"
      using tables_space_free(3) e by (simp add: list_all_iff)
    have pt: "\<not> any_keyword_in (map ascii_lower (snd e)) [0x516D, 0x7956, 0x58C7, 0x7D93]"
      "any_keyword_in (map ascii_lower (snd e)) [0x91CB, 0x5B97, 0x5BF6] \<longleftrightarrow> fst e = ''Commentarial''"
      using platform_sutra_tradition_keywords e by (simp_all add: list_all_iff)
    show "any_keyword_in (map lower (snd e))
            ([0x516D, 0x7956, 0x58C7, 0x7D93] @ 0x20 # ([0x91CB, 0x5B97, 0x5BF6] @ 0x20 # lower source))
          = (fst e = ''Commentarial'' \<or> any_keyword_in (map lower (snd e)) (lower source))"
      unfolding lk by (simp only: any_keyword_in_sep [OF sf] pt) simp
  qed
  then show ?thesis by (simp only: matched_traditions_filter tc)
qed

lemma commentarial_entry:
  "filter (\<lambda>e. fst e = ''Commentarial'') TRADITION_CLASSIFICATIONS =
     [(''Commentarial'', snd (TRADITION_CLASSIFICATIONS ! 11))]"
  by (simp add: TRADITION_CLASSIFICATIONS_def)

lemma origin_sentinel_not_a_label: "''Unknown Origin'' \<notin> set (map fst GEOGRAPHIC_ORIGINS)"
  by (simp add: GEOGRAPHIC_ORIGINS_def)

lemma labels_filter_disj:
  assumes "(c, k) \<in> set xs"
  shows "set (map fst (filter (\<lambda>e. fst e = c \<or> P e) xs)) = insert c (set (map fst (filter P xs)))"
  using assms by (induction xs) auto

section \<open>Facts about the dictionaries\<close>

lemma map_of_dd_update:
  "map_of (dd_update dflt f k al) =
     (map_of al)(k \<mapsto> f (case map_of al k of None \<Rightarrow> dflt | Some v \<Rightarrow> v))"
  by (induction al) (auto simp: fun_eq_iff)

lemma dd_update_values:
  assumes "\<And>v. g (f v) = insert x (g v)" and "g dflt = {}"
  shows "(\<Union>kv \<in> set (dd_update dflt f k al). g (snd kv)) =
           insert x (\<Union>kv \<in> set al. g (snd kv))"
proof (induction al)
  case Nil
  show ?case by (simp add: assms)
next
  case (Cons a al)
  obtain k' v where a: "a = (k', v)" by (cases a)
  show ?case
  proof (cases "k' = k")
    case True
    then show ?thesis by (simp add: a assms)
  next
    case False
    then show ?thesis by (simp add: a Cons.IH)
  qed
qed

lemma dd_get_dd_append:
  "dd_get (dd_append k x d) k' = (if k' = k then dd_get d k @ [x] else dd_get d k')"
  by (simp add: dd_get_def dd_append_def map_of_dd_update split: option.splits)

lemma dd_values_dd_append:
  "set (dd_values (dd_append k x d)) = insert x (set (dd_values d))"
proof -
  have "(\<Union>kv \<in> set (dd_append k x d). set (snd kv)) = insert x (\<Union>kv \<in> set d. set (snd kv))"
    unfolding dd_append_def by (rule dd_update_values) simp_all
  then show ?thesis by (simp add: dd_values_def)
qed

lemma dd_values_fold_dd_append:
  "set (dd_values (fold (\<lambda>t. dd_append t x) ts d)) =
     (if ts = [] then {} else {x}) \<union> set (dd_values d)"
  by (induction ts arbitrary: d) (auto simp: dd_values_dd_append)

lemma dd_get_fold_dd_append:
  "dd_get (fold (\<lambda>t. dd_append t x) ts d) k = dd_get d k @ replicate (count_list ts k) x"
  by (induction ts arbitrary: d) (auto simp: dd_get_dd_append replicate_append_same)

lemma canon_files_dd_update:
  "canon_files (dd_update empty_group (file_under_canon m ts per org) code d) code' =
     (if code' = code then canon_files d code @ [md_file_path m] else canon_files d code')"
  by (simp add: canon_files_def map_of_dd_update file_under_canon_def empty_group_def
           split: option.splits)

lemma group_files_dd_update:
  "set (group_files (dd_update empty_group (file_under_canon m ts per org) code d)) =
     insert (md_file_path m) (set (group_files d))"
proof -
  have "(\<Union>kv \<in> set (dd_update empty_group (file_under_canon m ts per org) code d).
           set (cg_files (snd kv))) =
        insert (md_file_path m) (\<Union>kv \<in> set d. set (cg_files (snd kv)))"
    by (rule dd_update_values) (simp_all add: file_under_canon_def empty_group_def)
  then show ?thesis by (simp add: group_files_def)
qed

section \<open>Facts about extraction and the walk\<close>

lemma extract_metadata_parse_error:
  "ET_parse h p = None \<Longrightarrow> extract_metadata h p ci = Inl ParseError"
  by (simp add: extract_metadata_def)

lemma extract_metadata_file_path:
  "extract_metadata h p ci = Inr m \<Longrightarrow> md_file_path m = p"
  by (auto simp: extract_metadata_def Let_def split: option.splits sum.splits)

lemma fold_document_fields:
  "by_tradition (fold_document m ts per org r) =
     fold (\<lambda>t. dd_append t (md_file_path m)) ts (by_tradition r)"
  "by_period (fold_document m ts per org r) = dd_append per (md_file_path m) (by_period r)"
  "by_origin (fold_document m ts per org r) = dd_append org (md_file_path m) (by_origin r)"
  "detailed_analysis (fold_document m ts per org r) =
     detailed_analysis r @ [detail_record m ts per org]"
  "by_canon (fold_document m ts per org r) =
     (if truthy (md_canon_code m)
      then dd_update empty_group (file_under_canon m ts per org)
             (case md_canon_code m of Some c \<Rightarrow> c | None \<Rightarrow> []) (by_canon r)
      else by_canon r)"
  by (simp_all add: fold_document_def truthy_def split: option.splits)

lemma indexed_paths_fold_document:
  "set (indexed_paths (fold_document m ts per org r)) =
     insert (md_file_path m) (set (indexed_paths r))"
  by (auto simp: indexed_paths_def by_canon_paths_def fold_document_fields dd_values_dd_append
        dd_values_fold_dd_append group_files_dd_update)

lemma by_canon_paths_fold_document:
  "set (by_canon_paths (fold_document m ts per org r)) =
     (if truthy (md_canon_code m) then {md_file_path m} else {}) \<union> set (by_canon_paths r)"
  by (auto simp: by_canon_paths_def fold_document_fields group_files_dd_update)

lemma detailed_paths_fold_document:
  "set (detailed_paths (fold_document m ts per org r)) =
     insert (md_file_path m) (set (detailed_paths r))"
  by (simp add: detailed_paths_def fold_document_fields detail_record_def)

lemma process_file_error:
  "extract_metadata h p ci = Inl e \<Longrightarrow> process_file h ci p st = (fst st, snd st + 1)"
  by (simp add: process_file_def Let_def)

lemma process_file_ok:
  "extract_metadata h p ci = Inr m \<Longrightarrow>
   process_file h ci p st =
     (fold_document m (classify_tradition (str_lower h) (md_titles m) (md_author m) (md_source m))
        (classify_period (md_author m) (md_source m) (md_titles m))
        (classify_geographic (md_author m) (md_source m) (md_titles m)) (fst st), snd st + 1)"
  by (simp add: process_file_def Let_def)

lemma process_file_processed: "snd (process_file h ci p st) = snd st + 1"
  by (cases "extract_metadata h p ci") (simp_all add: process_file_error process_file_ok)

lemma walk_indexed_paths:
  "set (indexed_paths (fst (fold (process_file h ci) files st))) =
     set (indexed_paths (fst st)) \<union> {p \<in> set files. \<exists>m. extract_metadata h p ci = Inr m}"
proof (induction files arbitrary: st)
  case Nil
  then show ?case by simp
next
  case (Cons p files)
  show ?case
  proof (cases "extract_metadata h p ci")
    case (Inl e)
    then show ?thesis by (auto simp: Cons.IH process_file_error)
  next
    case (Inr m)
    then show ?thesis
      by (auto simp: Cons.IH process_file_ok indexed_paths_fold_document
            extract_metadata_file_path)
  qed
qed

lemma walk_detailed_paths:
  "set (detailed_paths (fst (fold (process_file h ci) files st))) =
     set (detailed_paths (fst st)) \<union> {p \<in> set files. \<exists>m. extract_metadata h p ci = Inr m}"
proof (induction files arbitrary: st)
  case Nil
  then show ?case by simp
next
  case (Cons p files)
  show ?case
  proof (cases "extract_metadata h p ci")
    case (Inl e)
    then show ?thesis by (auto simp: Cons.IH process_file_error)
  next
    case (Inr m)
    then show ?thesis
      by (auto simp: Cons.IH process_file_ok detailed_paths_fold_document
            extract_metadata_file_path)
  qed
qed

lemma walk_by_canon_paths:
  "set (by_canon_paths (fst (fold (process_file h ci) files st))) =
     set (by_canon_paths (fst st)) \<union>
     {p \<in> set files. \<exists>m. extract_metadata h p ci = Inr m \<and> truthy (md_canon_code m)}"
proof (induction files arbitrary: st)
  case Nil
  then show ?case by simp
next
  case (Cons p files)
  show ?case
  proof (cases "extract_metadata h p ci")
    case (Inl e)
    then show ?thesis by (auto simp: Cons.IH process_file_error)
  next
    case (Inr m)
    then show ?thesis
      by (auto simp: Cons.IH process_file_ok by_canon_paths_fold_document
            extract_metadata_file_path)
  qed
qed

lemma analyze_views:
  "indexed_paths (analyze_buddhist_metadata h ci files) = indexed_paths (fst (walk h ci files))"
  "detailed_paths (analyze_buddhist_metadata h ci files) = detailed_paths (fst (walk h ci files))"
  "by_canon_paths (analyze_buddhist_metadata h ci files) = by_canon_paths (fst (walk h ci files))"
  "by_canon (analyze_buddhist_metadata h ci files) = by_canon (fst (walk h ci files))"
  "by_tradition (analyze_buddhist_metadata h ci files) = by_tradition (fst (walk h ci files))"
  "by_period (analyze_buddhist_metadata h ci files) = by_period (fst (walk h ci files))"
  "by_origin (analyze_buddhist_metadata h ci files) = by_origin (fst (walk h ci files))"
  "detailed_analysis (analyze_buddhist_metadata h ci files) =
     detailed_analysis (fst (walk h ci files))"
  by (simp_all add: analyze_buddhist_metadata_def Let_def indexed_paths_def detailed_paths_def
        by_canon_paths_def)

lemma initial_results_views:
  "indexed_paths initial_results = []"
  "detailed_paths initial_results = []"
  "by_canon_paths initial_results = []"
  by (simp_all add: indexed_paths_def by_canon_paths_def group_files_def dd_values_def
        detailed_paths_def initial_results_def)

lemma grows_refl: "grows r r"
  by (simp add: grows_def)

lemma grows_trans: "grows r r' \<Longrightarrow> grows r' r'' \<Longrightarrow> grows r r''"
  unfolding grows_def by (meson subset_trans)

lemma grows_fold_document: "grows r (fold_document m ts per org r)"
  by (auto simp: grows_def fold_document_fields dd_get_dd_append dd_get_fold_dd_append
        canon_files_dd_update)

lemma filed_fold_document: "filed m ts per org (fold_document m ts per org r)"
  by (auto simp: filed_def fold_document_fields dd_get_dd_append dd_get_fold_dd_append
        canon_files_dd_update truthy_def count_list_0_iff)

lemma filed_grows: "grows r r' \<Longrightarrow> filed m ts per org r \<Longrightarrow> filed m ts per org r'"
  unfolding grows_def filed_def by blast

lemma grows_process_file: "grows (fst st) (fst (process_file h ci p st))"
  by (cases "extract_metadata h p ci")
     (simp_all add: process_file_error process_file_ok grows_refl grows_fold_document)

lemma grows_walk: "grows (fst st) (fst (fold (process_file h ci) files st))"
proof (induction files arbitrary: st)
  case Nil
  show ?case by (simp add: grows_refl)
next
  case (Cons p files)
  have "grows (fst st) (fst (process_file h ci p st))" by (rule grows_process_file)
  moreover have "grows (fst (process_file h ci p st))
                   (fst (fold (process_file h ci) files (process_file h ci p st)))"
    by (rule Cons.IH)
  ultimately show ?case by (simp add: grows_trans)
qed

lemma filed_walk:
  assumes "p \<in> set files" and "extract_metadata h p ci = Inr m"
  shows "filed m (classify_tradition (str_lower h) (md_titles m) (md_author m) (md_source m))
           (classify_period (md_author m) (md_source m) (md_titles m))
           (classify_geographic (md_author m) (md_source m) (md_titles m))
           (fst (fold (process_file h ci) files st))"
proof -
  from assms(1) obtain xs ys where files: "files = xs @ p # ys" by (meson split_list)
  let ?st = "fold (process_file h ci) xs st"
  have "filed m (classify_tradition (str_lower h) (md_titles m) (md_author m) (md_source m))
           (classify_period (md_author m) (md_source m) (md_titles m))
           (classify_geographic (md_author m) (md_source m) (md_titles m))
           (fst (process_file h ci p ?st))"
    by (simp add: process_file_ok [OF assms(2)] filed_fold_document)
  moreover have "grows (fst (process_file h ci p ?st))
                   (fst (fold (process_file h ci) ys (process_file h ci p ?st)))"
    by (rule grows_walk)
  ultimately show ?thesis by (simp add: files filed_grows)
qed

subsection \<open>The tallies of a canon group\<close>

lemma counter_get_counter_incr:
  "counter_get (counter_incr k c) k' = counter_get c k' + (if k' = k then 1 else 0)"
  by (simp add: counter_get_def counter_incr_def map_of_dd_update split: option.splits)

lemma counter_get_fold_counter_incr:
  "counter_get (fold counter_incr ts c) k = counter_get c k + count_list ts k"
  by (induction ts arbitrary: c) (simp_all add: counter_get_counter_incr)

lemma canon_group_at_dd_update:
  "canon_group_at (dd_update empty_group f code d) code' =
     (if code' = code then f (canon_group_at d code) else canon_group_at d code')"
  by (simp add: canon_group_at_def map_of_dd_update split: option.splits)

lemma canon_files_group: "canon_files d code = cg_files (canon_group_at d code)"
  by (simp add: canon_files_def canon_group_at_def empty_group_def split: option.splits)

lemma file_under_canon_fields:
  "cg_files (file_under_canon m ts per org g) = cg_files g @ [md_file_path m]"
  "counter_get (cg_traditions (file_under_canon m ts per org g)) k =
     counter_get (cg_traditions g) k + count_list ts k"
  "counter_get (cg_periods (file_under_canon m ts per org g)) k =
     counter_get (cg_periods g) k + (if k = per then 1 else 0)"
  "counter_get (cg_origins (file_under_canon m ts per org g)) k =
     counter_get (cg_origins g) k + (if k = org then 1 else 0)"
  by (simp_all add: file_under_canon_def counter_get_fold_counter_incr counter_get_counter_incr)

lemma canon_group_at_fold_document:
  "canon_group_at (by_canon (fold_document m ts per org r)) c =
     (if md_canon_code m = Some c \<and> c \<noteq> []
      then file_under_canon m ts per org (canon_group_at (by_canon r) c)
      else canon_group_at (by_canon r) c)"
  by (auto simp: fold_document_fields canon_group_at_dd_update truthy_def split: option.splits)

lemma by_canon_fold_document_no_code:
  "\<not> truthy (md_canon_code m) \<Longrightarrow> by_canon (fold_document m ts per org r) = by_canon r"
  by (simp add: fold_document_fields)

lemma distinct_tradition_labels: "distinct (map fst TRADITION_CLASSIFICATIONS)"
  by (simp add: TRADITION_CLASSIFICATIONS_def)

lemma distinct_classify_tradition: "distinct (classify_tradition lower titles author source)"
  by (simp add: classify_tradition_def Let_def matched_traditions_filter
        distinct_map_filter distinct_tradition_labels)

lemma count_list_distinct: "distinct xs \<Longrightarrow> count_list xs k = (if k \<in> set xs then 1 else 0)"
  by (induction xs) auto

lemma tallies_grow_refl: "tallies_grow r r"
  by (simp add: tallies_grow_def)

lemma tallies_grow_trans: "tallies_grow r r' \<Longrightarrow> tallies_grow r' r'' \<Longrightarrow> tallies_grow r r''"
  unfolding tallies_grow_def by (meson le_trans)

lemma tallies_grow_fold_document: "tallies_grow r (fold_document m ts per org r)"
  by (simp add: tallies_grow_def canon_group_at_fold_document file_under_canon_fields)

lemma count_list_pos: "k \<in> set xs \<Longrightarrow> 0 < count_list xs k"
  by (induction xs) auto

lemma tallied_fold_document: "tallied m ts per org (fold_document m ts per org r)"
  by (simp add: tallied_def canon_group_at_fold_document file_under_canon_fields
        count_list_pos)

lemma tallied_grows:
  "tallies_grow r r' \<Longrightarrow> tallied m ts per org r \<Longrightarrow> tallied m ts per org r'"
  unfolding tallies_grow_def tallied_def by (meson less_le_trans)

lemma tallies_grow_process_file: "tallies_grow (fst st) (fst (process_file h ci p st))"
  by (cases "extract_metadata h p ci")
     (simp_all add: process_file_error process_file_ok tallies_grow_refl
        tallies_grow_fold_document)

lemma tallies_grow_walk: "tallies_grow (fst st) (fst (fold (process_file h ci) files st))"
proof (induction files arbitrary: st)
  case Nil
  show ?case by (simp add: tallies_grow_refl)
next
  case (Cons p files)
  have "tallies_grow (fst st) (fst (process_file h ci p st))"
    by (rule tallies_grow_process_file)
  moreover have "tallies_grow (fst (process_file h ci p st))
                   (fst (fold (process_file h ci) files (process_file h ci p st)))"
    by (rule Cons.IH)
  ultimately show ?case by (simp add: tallies_grow_trans)
qed

lemma tallied_walk:
  assumes "p \<in> set files" and "extract_metadata h p ci = Inr m"
  shows "tallied m (classify_tradition (str_lower h) (md_titles m) (md_author m) (md_source m))
           (classify_period (md_author m) (md_source m) (md_titles m))
           (classify_geographic (md_author m) (md_source m) (md_titles m))
           (fst (fold (process_file h ci) files st))"
proof -
  from assms(1) obtain xs ys where files: "files = xs @ p # ys" by (meson split_list)
  let ?st = "fold (process_file h ci) xs st"
  have "tallied m (classify_tradition (str_lower h) (md_titles m) (md_author m) (md_source m))
           (classify_period (md_author m) (md_source m) (md_titles m))
           (classify_geographic (md_author m) (md_source m) (md_titles m))
           (fst (process_file h ci p ?st))"
    by (simp add: process_file_ok [OF assms(2)] tallied_fold_document)
  moreover have "tallies_grow (fst (process_file h ci p ?st))
                   (fst (fold (process_file h ci) ys (process_file h ci p ?st)))"
    by (rule tallies_grow_walk)
  ultimately show ?thesis by (simp add: files tallied_grows)
qed

lemma fold_document_effect:
  fixes m ts per org r
  defines "r' \<equiv> fold_document m ts per org r"
  assumes "distinct ts"
  shows "dd_get (by_tradition r') k =
           dd_get (by_tradition r) k @ (if k \<in> set ts then [md_file_path m] else [])"
    and "dd_get (by_period r') k =
           dd_get (by_period r) k @ (if k = per then [md_file_path m] else [])"
    and "dd_get (by_origin r') k =
           dd_get (by_origin r) k @ (if k = org then [md_file_path m] else [])"
    and "detailed_analysis r' = detailed_analysis r @ [detail_record m ts per org]"
    and "cg_files (canon_group_at (by_canon r') c) =
           cg_files (canon_group_at (by_canon r) c) @
           (if md_canon_code m = Some c \<and> c \<noteq> [] then [md_file_path m] else [])"
    and "counter_get (cg_traditions (canon_group_at (by_canon r') c)) k =
           counter_get (cg_traditions (canon_group_at (by_canon r) c)) k +
           (if md_canon_code m = Some c \<and> c \<noteq> [] \<and> k \<in> set ts then 1 else 0)"
    and "counter_get (cg_periods (canon_group_at (by_canon r') c)) k =
           counter_get (cg_periods (canon_group_at (by_canon r) c)) k +
           (if md_canon_code m = Some c \<and> c \<noteq> [] \<and> k = per then 1 else 0)"
    and "counter_get (cg_origins (canon_group_at (by_canon r') c)) k =
           counter_get (cg_origins (canon_group_at (by_canon r) c)) k +
           (if md_canon_code m = Some c \<and> c \<noteq> [] \<and> k = org then 1 else 0)"
  unfolding r'_def using assms(2)
  by (simp_all add: fold_document_fields(1-4) dd_get_fold_dd_append dd_get_dd_append
        canon_group_at_fold_document file_under_canon_fields count_list_distinct)

section \<open>The small corpus, evaluated\<close>

lemma ustr_eq_iff: "ustr a = ustr b \<longleftrightarrow> a = b"
  unfolding ustr_def by (simp add: inj_on_def)

lemma ustr_Nil_iff: "ustr a = [] \<longleftrightarrow> a = []"
  by (simp add: ustr_def)

lemma tei_eq_iff: "tei a = tei b \<longleftrightarrow> a = b"
  by (simp add: tei_def ustr_eq_iff)

lemma example_parse:
  "ET_parse example_host (ustr ''T0001_foo.xml'') = Some example_document"
  "ET_parse example_host (ustr ''T/T0001_foo.xml'') = Some example_document"
  "ET_parse example_host (ustr ''plain.xml'') = Some plain_document"
  "ET_parse example_host (ustr ''broken.xml'') = None"
  by (simp_all add: example_host_def ustr_eq_iff)

lemma example_str_lower: "str_lower example_host = ascii_lower"
  by (simp add: example_host_def)

lemma example_xml_id:
  "elem_get example_document (ustr ''xml:id'') [] = []"
  "elem_get plain_document (ustr ''xml:id'') [] = []"
  by (simp_all add: example_document_def plain_document_def elem_get_def xml_ns_id_def
        ustr_eq_iff)

lemma example_titles:
  "title_texts (findall_descendants example_document (tei ''title'')) =
     [[0x516D, 0x7956, 0x58C7, 0x7D93]]"
  "title_texts (findall_descendants plain_document (tei ''title'')) = []"
  by (simp_all add: example_document_def plain_document_def findall_descendants_def tei_eq_iff
        strip_def is_space_def)

lemma example_author:
  "stripped_text (first_of (findall_descendants example_document (tei ''author''))) =
     [0x91CB, 0x5B97, 0x5BF6]"
  "stripped_text (first_of (findall_descendants plain_document (tei ''author''))) = []"
  by (simp_all add: example_document_def plain_document_def findall_descendants_def tei_eq_iff
        strip_def is_space_def first_of_def stripped_text_def)

lemma example_source:
  "stripped_text (first_of (findall_child_of_descendants example_document
     (tei ''sourceDesc'') (tei ''bibl''))) = [0x5B8B]"
  "stripped_text (first_of (findall_child_of_descendants plain_document
     (tei ''sourceDesc'') (tei ''bibl''))) = []"
  by (simp_all add: example_document_def plain_document_def findall_descendants_def
        findall_child_of_descendants_def tei_eq_iff strip_def is_space_def first_of_def
        stripped_text_def)

lemma example_canon_code:
  "derive_canon_code example_host example_registry [] (ustr ''T0001_foo.xml'') = None"
  "derive_canon_code example_host example_registry [] (ustr ''plain.xml'') = None"
  "derive_canon_code example_host example_registry [] (ustr ''T/T0001_foo.xml'')
     = Some (ustr ''T'')"
  "derive_canon_code example_host example_registry (ustr ''T0001_foo'') (ustr ''T0001_foo.xml'')
     = Some (ustr ''T'')"
  by (simp_all add: derive_canon_code_def truthy_def leading_upper_def example_host_def
        example_registry_def ustr_def)

lemma example_canon_name:
  "canon_name_of example_registry None = Inr (ustr ''Unknown'')"
  "canon_name_of example_registry (Some (ustr ''T'')) = Inr [0x5927, 0x6B63, 0x85CF]"
  by (simp_all add: canon_name_of_def example_registry_def ustr_def)

lemma example_extract:
  "extract_metadata example_host (ustr ''T0001_foo.xml'') example_registry =
   Inr \<lparr>md_xml_id = [], md_canon_code = None, md_canon_name = ustr ''Unknown'',
        md_titles = [[0x516D, 0x7956, 0x58C7, 0x7D93]], md_author = [0x91CB, 0x5B97, 0x5BF6],
        md_source = [0x5B8B], md_file_path = ustr ''T0001_foo.xml''\<rparr>"
  "extract_metadata example_host (ustr ''T/T0001_foo.xml'') example_registry =
   Inr \<lparr>md_xml_id = [], md_canon_code = Some (ustr ''T''),
        md_canon_name = [0x5927, 0x6B63, 0x85CF],
        md_titles = [[0x516D, 0x7956, 0x58C7, 0x7D93]], md_author = [0x91CB, 0x5B97, 0x5BF6],
        md_source = [0x5B8B], md_file_path = ustr ''T/T0001_foo.xml''\<rparr>"
  "extract_metadata example_host (ustr ''plain.xml'') example_registry =
   Inr \<lparr>md_xml_id = [], md_canon_code = None, md_canon_name = ustr ''Unknown'',
        md_titles = [], md_author = [], md_source = [], md_file_path = ustr ''plain.xml''\<rparr>"
  by (simp_all add: extract_metadata_def example_parse example_xml_id example_titles
        example_author example_source example_canon_code example_canon_name)

lemma example_classification:
  "classify_tradition ascii_lower [[0x516D, 0x7956, 0x58C7, 0x7D93]] [0x91CB, 0x5B97, 0x5BF6] [0x5B8B]
     = [''Commentarial'']"
  "classify_period [0x91CB, 0x5B97, 0x5BF6] [0x5B8B] [[0x516D, 0x7956, 0x58C7, 0x7D93]] = ''Song''"
  "classify_geographic [0x91CB, 0x5B97, 0x5BF6] [0x5B8B] [[0x516D, 0x7956, 0x58C7, 0x7D93]]
     = ''Unknown Origin''"
  by (simp_all add: classify_tradition_def TRADITION_CLASSIFICATIONS_def ascii_lower_def
        classify_period_def DYNASTY_PERIODS_def classify_geographic_def GEOGRAPHIC_ORIGINS_def)

lemma plain_classification:
  "classify_tradition ascii_lower [] [] [] = [''General/Unspecified'']"
  "classify_period [] [] [] = ''Unknown Period''"
  "classify_geographic [] [] [] = ''Unknown Origin''"
  by (simp_all add: classify_tradition_def TRADITION_CLASSIFICATIONS_def ascii_lower_def
        classify_period_def DYNASTY_PERIODS_def classify_geographic_def GEOGRAPHIC_ORIGINS_def)

lemma example_process_broken:
  "process_file example_host example_registry (ustr ''broken.xml'') st = (fst st, snd st + 1)"
  by (simp add: process_file_error extract_metadata_parse_error example_parse)

lemma example_walk:
  "fst (walk example_host example_registry
          [ustr ''plain.xml'', ustr ''broken.xml'', ustr ''T/T0001_foo.xml'']) =
     \<lparr>summary = [],
      by_canon =
        [(ustr ''T'',
          \<lparr>cg_files = [ustr ''T/T0001_foo.xml''], cg_traditions = [(''Commentarial'', 1)],
           cg_periods = [(''Song'', 1)], cg_origins = [(''Unknown Origin'', 1)]\<rparr>)],
      by_tradition =
        [(''General/Unspecified'', [ustr ''plain.xml'']),
         (''Commentarial'', [ustr ''T/T0001_foo.xml''])],
      by_period =
        [(''Unknown Period'', [ustr ''plain.xml'']), (''Song'', [ustr ''T/T0001_foo.xml''])],
      by_origin = [(''Unknown Origin'', [ustr ''plain.xml'', ustr ''T/T0001_foo.xml''])],
      detailed_analysis =
        [\<lparr>d_file = ustr ''plain.xml'', d_canon = None, d_canon_name = ustr ''Unknown'',
          d_traditions = [''General/Unspecified''], d_period = ''Unknown Period'',
          d_origin = ''Unknown Origin'', d_author = [], d_main_title = []\<rparr>,
         \<lparr>d_file = ustr ''T/T0001_foo.xml'', d_canon = Some (ustr ''T''),
          d_canon_name = [0x5927, 0x6B63, 0x85CF], d_traditions = [''Commentarial''],
          d_period = ''Song'', d_origin = ''Unknown Origin'',
          d_author = [0x91CB, 0x5B97, 0x5BF6],
          d_main_title = [0x516D, 0x7956, 0x58C7, 0x7D93]\<rparr>]\<rparr>"
  by (simp add: walk_def example_process_broken process_file_ok example_extract
        example_classification plain_classification example_str_lower fold_document_def
        detail_record_def file_under_canon_def empty_group_def dd_append_def counter_incr_def
        initial_results_def ustr_eq_iff ustr_Nil_iff)

section \<open>The claims\<close>

subsection \<open>C1: the Platform Sutra example\<close>

text \<open>
  C1, as amended. Take the document with the single title U+516D U+7956 U+58C7 U+7D93,
  author U+91CB U+5B97 U+5BF6 and any source that contains U+5B8B. Its traditions are
  ``Commentarial'', for the author's first character U+91CB, together with the traditions
  that have a keyword in the lower-cased source, so never ``Chan/Zen'' alone, and
  ``Commentarial'' alone when the source holds no tradition keyword. Its period is one of
  ``Pre-Tang'', ``Tang'' and ``Song'', and is ``Song'' exactly when the source holds no
  keyword of the two entries before ``Song''. Its origin is ``Unknown Origin'' exactly when
  the source holds no origin keyword. Of \<^verbatim>\<open>str.lower\<close> two facts are used: title and author
  have no cased character, so lower-casing the joined text lower-cases the source alone;
  and on the keywords of the table it lower-cases the ASCII letters.
\<close>

theorem platform_sutra_example:
  fixes lower source
  assumes song: "occurs_in [0x5B8B] source"
    and low: "lower (join_sp ([[0x516D, 0x7956, 0x58C7, 0x7D93]] @ [[0x91CB, 0x5B97, 0x5BF6]] @ [source]))
              = join_sp ([[0x516D, 0x7956, 0x58C7, 0x7D93]] @ [[0x91CB, 0x5B97, 0x5BF6]] @ [lower source])"
    and kw: "\<forall>(tradition, kws) \<in> set TRADITION_CLASSIFICATIONS. \<forall>kw \<in> set kws.
               lower kw = ascii_lower kw"
  shows "set (classify_tradition lower [[0x516D, 0x7956, 0x58C7, 0x7D93]] [0x91CB, 0x5B97, 0x5BF6] source)
           = insert ''Commentarial''
               (set (matched_traditions lower TRADITION_CLASSIFICATIONS (lower source))) \<and>
         set (classify_tradition lower [[0x516D, 0x7956, 0x58C7, 0x7D93]] [0x91CB, 0x5B97, 0x5BF6] source)
           \<noteq> {''Chan/Zen''} \<and>
         ((\<forall>(tradition, kws) \<in> set TRADITION_CLASSIFICATIONS. \<forall>kw \<in> set kws.
              \<not> occurs_in (lower kw) (lower source)) \<longrightarrow>
            classify_tradition lower [[0x516D, 0x7956, 0x58C7, 0x7D93]] [0x91CB, 0x5B97, 0x5BF6] source
              = [''Commentarial'']) \<and>
         classify_period [0x91CB, 0x5B97, 0x5BF6] source [[0x516D, 0x7956, 0x58C7, 0x7D93]]
           \<in> {''Pre-Tang'', ''Tang'', ''Song''} \<and>
         (classify_period [0x91CB, 0x5B97, 0x5BF6] source [[0x516D, 0x7956, 0x58C7, 0x7D93]] = ''Song''
            \<longleftrightarrow> \<not> entry_matches DYNASTY_PERIODS 0 source \<and>
                \<not> entry_matches DYNASTY_PERIODS 1 source) \<and>
         (classify_geographic [0x91CB, 0x5B97, 0x5BF6] source [[0x516D, 0x7956, 0x58C7, 0x7D93]]
            = ''Unknown Origin''
            \<longleftrightarrow> (\<forall>i < length GEOGRAPHIC_ORIGINS. \<not> entry_matches GEOGRAPHIC_ORIGINS i source))"
proof -
  let ?P = "\<lambda>e. any_keyword_in (map lower (snd e)) (lower source)"
  let ?ms = "map fst (filter (\<lambda>e. fst e = ''Commentarial'' \<or> ?P e) TRADITION_CLASSIFICATIONS)"
  let ?res = "classify_tradition lower [[0x516D, 0x7956, 0x58C7, 0x7D93]] [0x91CB, 0x5B97, 0x5BF6] source"
  have c_in: "''Commentarial'' \<in> set ?ms"
    by (simp add: TRADITION_CLASSIFICATIONS_def)
  have ne: "?ms \<noteq> []"
    using c_in by (metis empty_iff empty_set)
  have mt: "matched_traditions lower TRADITION_CLASSIFICATIONS
              (lower (join_sp ([[0x516D, 0x7956, 0x58C7, 0x7D93]] @ [[0x91CB, 0x5B97, 0x5BF6]] @
                 [source]))) = ?ms"
    by (rule platform_sutra_matched [OF low kw])
  have res: "?res = ?ms"
    unfolding classify_tradition_def Let_def mt by (rule if_P [OF ne])
  have "(''Commentarial'', snd (TRADITION_CLASSIFICATIONS ! 11)) \<in> set TRADITION_CLASSIFICATIONS"
    by (simp add: TRADITION_CLASSIFICATIONS_def)
  then have set_ms: "set ?ms = insert ''Commentarial''
                  (set (matched_traditions lower TRADITION_CLASSIFICATIONS (lower source)))"
    unfolding matched_traditions_filter by (rule labels_filter_disj)
  have a: "set ?res = insert ''Commentarial''
             (set (matched_traditions lower TRADITION_CLASSIFICATIONS (lower source)))"
    by (simp only: res set_ms)
  have b: "set ?res \<noteq> {''Chan/Zen''}"
    unfolding a by auto
  have c: "(\<forall>(tradition, kws) \<in> set TRADITION_CLASSIFICATIONS. \<forall>kw \<in> set kws.
              \<not> occurs_in (lower kw) (lower source)) \<longrightarrow> ?res = [''Commentarial'']"
  proof
    assume none: "\<forall>(tradition, kws) \<in> set TRADITION_CLASSIFICATIONS. \<forall>kw \<in> set kws.
              \<not> occurs_in (lower kw) (lower source)"
    have "filter (\<lambda>e. fst e = ''Commentarial'' \<or> ?P e) TRADITION_CLASSIFICATIONS =
          filter (\<lambda>e. fst e = ''Commentarial'') TRADITION_CLASSIFICATIONS"
    proof (rule filter_cong [OF refl])
      fix e assume "e \<in> set TRADITION_CLASSIFICATIONS"
      with none have "\<not> ?P e" by (auto simp: any_keyword_in_iff case_prod_beta)
      then show "(fst e = ''Commentarial'' \<or> ?P e) = (fst e = ''Commentarial'')" by simp
    qed
    then show "?res = [''Commentarial'']"
      by (simp only: res commentarial_entry) simp
  qed
  let ?per = "classify_period [0x91CB, 0x5B97, 0x5BF6] source [[0x516D, 0x7956, 0x58C7, 0x7D93]]"
  have per: "?per = (if entry_matches DYNASTY_PERIODS 0 source then ''Pre-Tang''
                     else if entry_matches DYNASTY_PERIODS 1 source then ''Tang'' else ''Song'')"
    using song_entry [OF song]
    by (simp add: platform_sutra_period first_match_entries)
  have d: "?per \<in> {''Pre-Tang'', ''Tang'', ''Song''}"
    by (simp add: per)
  have e: "?per = ''Song'' \<longleftrightarrow>
             \<not> entry_matches DYNASTY_PERIODS 0 source \<and> \<not> entry_matches DYNASTY_PERIODS 1 source"
    by (simp add: per)
  let ?org = "classify_geographic [0x91CB, 0x5B97, 0x5BF6] source [[0x516D, 0x7956, 0x58C7, 0x7D93]]"
  have f: "?org = ''Unknown Origin'' \<longleftrightarrow>
             (\<forall>i < length GEOGRAPHIC_ORIGINS. \<not> entry_matches GEOGRAPHIC_ORIGINS i source)"
  proof (cases "first_match GEOGRAPHIC_ORIGINS source")
    case None
    then show ?thesis
      using first_match_None_entries_iff [of GEOGRAPHIC_ORIGINS source]
      by (simp add: platform_sutra_origin)
  next
    case (Some r)
    from first_match_Some_label [OF Some] origin_sentinel_not_a_label
    have "r \<noteq> ''Unknown Origin''" by metis
    with Some show ?thesis
      using first_match_None_entries_iff [of GEOGRAPHIC_ORIGINS source]
      by (simp add: platform_sutra_origin)
  qed
  from a b c d e f show ?thesis by blast
qed

text \<open>
  C1 at the source U+5B8B U+520A, which names the Song and holds no other keyword:
  ``Commentarial'', ``Song'', ``Unknown Origin''.
\<close>

theorem platform_sutra_example_witness:
  "occurs_in [0x5B8B] [0x5B8B, 0x520A] \<and>
   classify_tradition ascii_lower [[0x516D, 0x7956, 0x58C7, 0x7D93]] [0x91CB, 0x5B97, 0x5BF6]
     [0x5B8B, 0x520A] = [''Commentarial''] \<and>
   classify_period [0x91CB, 0x5B97, 0x5BF6] [0x5B8B, 0x520A] [[0x516D, 0x7956, 0x58C7, 0x7D93]]
     = ''Song'' \<and>
   classify_geographic [0x91CB, 0x5B97, 0x5BF6] [0x5B8B, 0x520A] [[0x516D, 0x7956, 0x58C7, 0x7D93]]
     = ''Unknown Origin''"
proof -
  have song: "occurs_in [0x5B8B] [0x5B8B, 0x520A]" by simp
  have low: "ascii_lower (join_sp ([[0x516D, 0x7956, 0x58C7, 0x7D93]] @ [[0x91CB, 0x5B97, 0x5BF6]] @
                 [[0x5B8B, 0x520A]]))
             = join_sp ([[0x516D, 0x7956, 0x58C7, 0x7D93]] @ [[0x91CB, 0x5B97, 0x5BF6]] @
                 [ascii_lower [0x5B8B, 0x520A]])"
    by (simp add: ascii_lower_def)
  have kw: "\<forall>(tradition, kws) \<in> set TRADITION_CLASSIFICATIONS. \<forall>kw \<in> set kws.
              ascii_lower kw = ascii_lower kw"
    by simp
  have none: "\<forall>(tradition, kws) \<in> set TRADITION_CLASSIFICATIONS. \<forall>kw \<in> set kws.
              \<not> occurs_in (ascii_lower kw) (ascii_lower [0x5B8B, 0x520A])"
    by (simp add: TRADITION_CLASSIFICATIONS_def ascii_lower_def)
  have p: "\<not> entry_matches DYNASTY_PERIODS 0 [0x5B8B, 0x520A]"
          "\<not> entry_matches DYNASTY_PERIODS 1 [0x5B8B, 0x520A]"
    by (simp_all add: DYNASTY_PERIODS_def entry_matches_def)
  have "\<forall>e \<in> set GEOGRAPHIC_ORIGINS. \<not> any_keyword_in (snd e) [0x5B8B, 0x520A]"
    by (simp add: GEOGRAPHIC_ORIGINS_def)
  then have g: "\<forall>i < length GEOGRAPHIC_ORIGINS. \<not> entry_matches GEOGRAPHIC_ORIGINS i [0x5B8B, 0x520A]"
    by (simp add: entry_matches_def)
  from platform_sutra_example [OF song low kw] none p g song show ?thesis by blast
qed

text \<open>
  C1, as stated, fails in each of its three parts. With the source U+5B8B the traditions
  are ``Commentarial'', not ``Chan/Zen''; with U+5B8B U+53F2 they are ``Commentarial'' and
  ``Historical''. With the source U+5289 U+5B8B, a Pre-Tang keyword that contains U+5B8B,
  the period is ``Pre-Tang'', and with U+5510 U+5B8B it is ``Tang''. With the source
  U+5927 U+5B8B, a keyword of the China entry, the origin is ``China''.
\<close>

theorem platform_sutra_not_as_stated:
  "set (classify_tradition ascii_lower [[0x516D, 0x7956, 0x58C7, 0x7D93]] [0x91CB, 0x5B97, 0x5BF6]
          [0x5B8B]) \<noteq> {''Chan/Zen''} \<and>
   classify_tradition ascii_lower [[0x516D, 0x7956, 0x58C7, 0x7D93]] [0x91CB, 0x5B97, 0x5BF6]
          [0x5B8B] = [''Commentarial''] \<and>
   classify_tradition ascii_lower [[0x516D, 0x7956, 0x58C7, 0x7D93]] [0x91CB, 0x5B97, 0x5BF6]
          [0x5B8B, 0x53F2] = [''Commentarial'', ''Historical''] \<and>
   classify_period [0x91CB, 0x5B97, 0x5BF6] [0x5289, 0x5B8B] [[0x516D, 0x7956, 0x58C7, 0x7D93]]
     = ''Pre-Tang'' \<and>
   classify_period [0x91CB, 0x5B97, 0x5BF6] [0x5510, 0x5B8B] [[0x516D, 0x7956, 0x58C7, 0x7D93]]
     = ''Tang'' \<and>
   classify_geographic [0x91CB, 0x5B97, 0x5BF6] [0x5927, 0x5B8B] [[0x516D, 0x7956, 0x58C7, 0x7D93]]
     = ''China''"
  by (simp add: classify_tradition_def TRADITION_CLASSIFICATIONS_def ascii_lower_def
        classify_period_def DYNASTY_PERIODS_def classify_geographic_def GEOGRAPHIC_ORIGINS_def)

subsection \<open>C2: the canon code of a declared identifier\<close>

text \<open>
  C2, evaluated on the code. The registry knows the code \<open>T\<close> and the document declares
  \<^verbatim>\<open>xml:id="T0001_foo"\<close>, which the parser stores under the expanded name of the XML
  namespace. Extraction asks the root element for the key \<^verbatim>\<open>xml:id\<close>, finds nothing, and
  for the file \<^verbatim>\<open>T0001_foo.xml\<close>, no part of whose path is a registry code, ends with no
  canon code at all. The derivation itself is sound: handed the identifier, it yields
  \<open>T\<close>.
\<close>

theorem declared_identifier_not_read:
  "elem_get example_document xml_ns_id [] = ustr ''T0001_foo'' \<and>
   map_of example_registry (ustr ''T'') \<noteq> None \<and>
   derive_canon_code example_host example_registry (ustr ''T0001_foo'') (ustr ''T0001_foo.xml'')
     = Some (ustr ''T'') \<and>
   map_sum id md_xml_id
     (extract_metadata example_host (ustr ''T0001_foo.xml'') example_registry) = Inr [] \<and>
   map_sum id md_canon_code
     (extract_metadata example_host (ustr ''T0001_foo.xml'') example_registry) = Inr None"
  by (simp add: example_extract example_canon_code)
     (simp add: example_document_def elem_get_def example_registry_def)

subsection \<open>C3: table order decides\<close>

text \<open>
  C3. When the text holds keywords of two entries \<open>i < j\<close> of the period table,
  \<^verbatim>\<open>classify_period\<close> never returns the label of the later entry \<open>j\<close>; and when no entry
  before \<open>i\<close> matches (in particular when these two are the only entries that match), it
  returns the label of entry \<open>i\<close>, the one with the lower index. The same holds for
  \<^verbatim>\<open>classify_geographic\<close> and its table.
\<close>

theorem table_order_precedence:
  fixes author source titles
  defines "tc \<equiv> join_sp ([author, source] @ titles)"
  shows "(i < j \<and> j < length DYNASTY_PERIODS \<and>
          entry_matches DYNASTY_PERIODS i tc \<and> entry_matches DYNASTY_PERIODS j tc
          \<longrightarrow> classify_period author source titles \<noteq> fst (DYNASTY_PERIODS ! j) \<and>
              ((\<forall>k < i. \<not> entry_matches DYNASTY_PERIODS k tc) \<longrightarrow>
                 classify_period author source titles = fst (DYNASTY_PERIODS ! i))) \<and>
         (i' < j' \<and> j' < length GEOGRAPHIC_ORIGINS \<and>
          entry_matches GEOGRAPHIC_ORIGINS i' tc \<and> entry_matches GEOGRAPHIC_ORIGINS j' tc
          \<longrightarrow> classify_geographic author source titles \<noteq> fst (GEOGRAPHIC_ORIGINS ! j') \<and>
              ((\<forall>k < i'. \<not> entry_matches GEOGRAPHIC_ORIGINS k tc) \<longrightarrow>
                 classify_geographic author source titles = fst (GEOGRAPHIC_ORIGINS ! i')))"
proof -
  have period: "classify_period author source titles \<noteq> fst (DYNASTY_PERIODS ! j) \<and>
              ((\<forall>k < i. \<not> entry_matches DYNASTY_PERIODS k tc) \<longrightarrow>
                 classify_period author source titles = fst (DYNASTY_PERIODS ! i))"
    if h: "i < j \<and> j < length DYNASTY_PERIODS \<and>
          entry_matches DYNASTY_PERIODS i tc \<and> entry_matches DYNASTY_PERIODS j tc"
  proof -
    from h have hit: "any_keyword_in (snd (DYNASTY_PERIODS ! i)) tc"
      by (simp add: entry_matches_def)
    from h have i: "i < length DYNASTY_PERIODS" by simp
    have "first_match DYNASTY_PERIODS tc \<noteq> Some (fst (DYNASTY_PERIODS ! j))"
      using distinct_labels(1) h hit by (intro first_match_not_later [of _ i]) simp_all
    moreover obtain m where "first_match DYNASTY_PERIODS tc = Some (fst (DYNASTY_PERIODS ! m))"
      using first_match_least [OF i hit] by blast
    ultimately have a: "classify_period author source titles \<noteq> fst (DYNASTY_PERIODS ! j)"
      by (simp add: classify_period_eq tc_def)
    have b: "classify_period author source titles = fst (DYNASTY_PERIODS ! i)"
      if "\<forall>k < i. \<not> entry_matches DYNASTY_PERIODS k tc"
    proof -
      have "first_match DYNASTY_PERIODS tc = Some (fst (DYNASTY_PERIODS ! i))"
        using i hit that by (intro first_match_at) (simp_all add: entry_matches_def)
      then show ?thesis by (simp add: classify_period_eq tc_def)
    qed
    from a b show ?thesis by blast
  qed
  have origin: "classify_geographic author source titles \<noteq> fst (GEOGRAPHIC_ORIGINS ! j') \<and>
              ((\<forall>k < i'. \<not> entry_matches GEOGRAPHIC_ORIGINS k tc) \<longrightarrow>
                 classify_geographic author source titles = fst (GEOGRAPHIC_ORIGINS ! i'))"
    if h: "i' < j' \<and> j' < length GEOGRAPHIC_ORIGINS \<and>
          entry_matches GEOGRAPHIC_ORIGINS i' tc \<and> entry_matches GEOGRAPHIC_ORIGINS j' tc"
  proof -
    from h have hit: "any_keyword_in (snd (GEOGRAPHIC_ORIGINS ! i')) tc"
      by (simp add: entry_matches_def)
    from h have i: "i' < length GEOGRAPHIC_ORIGINS" by simp
    have "first_match GEOGRAPHIC_ORIGINS tc \<noteq> Some (fst (GEOGRAPHIC_ORIGINS ! j'))"
      using distinct_labels(2) h hit by (intro first_match_not_later [of _ i']) simp_all
    moreover obtain m where
      "first_match GEOGRAPHIC_ORIGINS tc = Some (fst (GEOGRAPHIC_ORIGINS ! m))"
      using first_match_least [OF i hit] by blast
    ultimately have a: "classify_geographic author source titles \<noteq> fst (GEOGRAPHIC_ORIGINS ! j')"
      by (simp add: classify_geographic_def tc_def)
    have b: "classify_geographic author source titles = fst (GEOGRAPHIC_ORIGINS ! i')"
      if "\<forall>k < i'. \<not> entry_matches GEOGRAPHIC_ORIGINS k tc"
    proof -
      have "first_match GEOGRAPHIC_ORIGINS tc = Some (fst (GEOGRAPHIC_ORIGINS ! i'))"
        using i hit that by (intro first_match_at) (simp_all add: entry_matches_def)
      then show ?thesis by (simp add: classify_geographic_def tc_def)
    qed
    from a b show ?thesis by blast
  qed
  from period origin show ?thesis by blast
qed

text \<open>
  C3 at a source that names Tang (entry 1) and Song (entry 2), and India (entry 0) and
  Japan (entry 4): U+5510 U+5B8B U+5929 U+7AFA U+65E5 U+672C. Tang and India win.
\<close>

theorem table_order_precedence_witness:
  "entry_matches DYNASTY_PERIODS 1
     (join_sp ([[], [0x5510, 0x5B8B, 0x5929, 0x7AFA, 0x65E5, 0x672C]] @ [])) \<and>
   entry_matches DYNASTY_PERIODS 2
     (join_sp ([[], [0x5510, 0x5B8B, 0x5929, 0x7AFA, 0x65E5, 0x672C]] @ [])) \<and>
   classify_period [] [0x5510, 0x5B8B, 0x5929, 0x7AFA, 0x65E5, 0x672C] [] = ''Tang'' \<and>
   entry_matches GEOGRAPHIC_ORIGINS 0
     (join_sp ([[], [0x5510, 0x5B8B, 0x5929, 0x7AFA, 0x65E5, 0x672C]] @ [])) \<and>
   entry_matches GEOGRAPHIC_ORIGINS 4
     (join_sp ([[], [0x5510, 0x5B8B, 0x5929, 0x7AFA, 0x65E5, 0x672C]] @ [])) \<and>
   classify_geographic [] [0x5510, 0x5B8B, 0x5929, 0x7AFA, 0x65E5, 0x672C] [] = ''India''"
  using table_order_precedence
          [of 1 2 "[]" "[0x5510, 0x5B8B, 0x5929, 0x7AFA, 0x65E5, 0x672C]" "[]" 0 4]
  by (simp add: entry_matches_def DYNASTY_PERIODS_def GEOGRAPHIC_ORIGINS_def)

subsection \<open>C4: a document that does not parse\<close>

text \<open>
  C4, as amended. For a document whose markup does not parse, extraction returns an error
  value; the walker skips the document, changing nothing in the result and advancing only
  \<^verbatim>\<open>processed\<close>, the count of all documents seen; and the document's path is in none of
  the four grouping indices and in no detail record of the final result.
\<close>

theorem malformed_document_skipped:
  assumes "ET_parse h xml_file = None"
  shows "extract_metadata h xml_file canon_info = Inl ParseError \<and>
         process_file h canon_info xml_file st = (fst st, snd st + 1) \<and>
         xml_file \<notin> set (indexed_paths (analyze_buddhist_metadata h canon_info xml_files)) \<and>
         xml_file \<notin> set (detailed_paths (analyze_buddhist_metadata h canon_info xml_files))"
proof -
  have err: "extract_metadata h xml_file canon_info = Inl ParseError"
    using assms by (rule extract_metadata_parse_error)
  have "xml_file \<notin> set (indexed_paths (fst (walk h canon_info xml_files)))"
    unfolding walk_def by (simp add: walk_indexed_paths initial_results_views err)
  moreover have "xml_file \<notin> set (detailed_paths (fst (walk h canon_info xml_files)))"
    unfolding walk_def by (simp add: walk_detailed_paths initial_results_views err)
  ultimately show ?thesis
    by (simp add: err process_file_error analyze_views)
qed

text \<open>
  C4 at the small corpus: \<^verbatim>\<open>broken.xml\<close> does not parse and is filed nowhere, while the
  document after it in the walk is filed.
\<close>

theorem malformed_document_skipped_witness:
  "ET_parse example_host (ustr ''broken.xml'') = None \<and>
   ustr ''broken.xml'' \<notin> set (indexed_paths (analyze_buddhist_metadata example_host
      example_registry [ustr ''plain.xml'', ustr ''broken.xml'', ustr ''T/T0001_foo.xml''])) \<and>
   ustr ''broken.xml'' \<notin> set (detailed_paths (analyze_buddhist_metadata example_host
      example_registry [ustr ''plain.xml'', ustr ''broken.xml'', ustr ''T/T0001_foo.xml''])) \<and>
   ustr ''T/T0001_foo.xml'' \<in> set (detailed_paths (analyze_buddhist_metadata example_host
      example_registry [ustr ''plain.xml'', ustr ''broken.xml'', ustr ''T/T0001_foo.xml'']))"
  using malformed_document_skipped [of example_host "ustr ''broken.xml''" example_registry
          "(initial_results, 0)"
          "[ustr ''plain.xml'', ustr ''broken.xml'', ustr ''T/T0001_foo.xml'']"]
  by (simp add: example_parse analyze_views example_walk detailed_paths_def)

text \<open>
  C4, as stated, has the walker increment an error or skip counter. The walker keeps no
  such counter: after the document that does not parse its whole state is the initial
  state with \<^verbatim>\<open>processed\<close> at 1, which is where \<^verbatim>\<open>processed\<close> stands after a well-formed
  document too, and the final result of the one-document corpus reports one file and
  nothing else.
\<close>

theorem no_error_counter:
  "process_file example_host example_registry (ustr ''broken.xml'') (initial_results, 0)
     = (initial_results, 1) \<and>
   snd (process_file example_host example_registry (ustr ''T0001_foo.xml'') (initial_results, 0))
     = 1 \<and>
   analyze_buddhist_metadata example_host example_registry [ustr ''broken.xml'']
     = initial_results\<lparr>summary :=
         [(''total_files'', 1), (''canons_found'', 0), (''traditions_found'', 0),
          (''periods_found'', 0), (''origins_found'', 0)]\<rparr>"
  by (simp add: example_process_broken process_file_processed analyze_buddhist_metadata_def
        walk_def initial_results_def)

subsection \<open>C5: a document that is extracted\<close>

text \<open>
  C5, as amended. A document of the corpus whose extraction succeeds is folded into the
  indices by tradition, by period and by origin, and its detail record is appended: in the
  final result its path stands under each of its tradition labels, under its period and
  under its origin, and its detail record is in the list. It is folded into the index by
  canon when extraction derived a non-empty canon code: the path is then in the file list of
  the code's group, and the group's tallies of traditions, periods and origins count each of
  the document's labels. With no canon code the document is in no canon group. The step of
  the walk that handles the document does exactly this and no more: under every key the
  lists and tallies are the old ones, with the path appended once, or the tally raised by
  one, under the document's own labels and canon code.
\<close>

theorem successful_document_folded:
  fixes h canon_info xml_files xml_file m st
  defines "R \<equiv> analyze_buddhist_metadata h canon_info xml_files"
  defines "traditions \<equiv>
             classify_tradition (str_lower h) (md_titles m) (md_author m) (md_source m)"
  defines "period \<equiv> classify_period (md_author m) (md_source m) (md_titles m)"
  defines "origin \<equiv> classify_geographic (md_author m) (md_source m) (md_titles m)"
  defines "r \<equiv> fst st"
  defines "r' \<equiv> fst (process_file h canon_info xml_file st)"
  assumes "xml_file \<in> set xml_files" and "extract_metadata h xml_file canon_info = Inr m"
  shows "(\<forall>tradition \<in> set traditions. xml_file \<in> set (dd_get (by_tradition R) tradition)) \<and>
         xml_file \<in> set (dd_get (by_period R) period) \<and>
         xml_file \<in> set (dd_get (by_origin R) origin) \<and>
         detail_record m traditions period origin \<in> set (detailed_analysis R) \<and>
         (\<forall>code. md_canon_code m = Some code \<and> code \<noteq> [] \<longrightarrow>
            xml_file \<in> set (canon_files (by_canon R) code) \<and>
            (\<forall>tradition \<in> set traditions.
                0 < counter_get (cg_traditions (canon_group_at (by_canon R) code)) tradition) \<and>
            0 < counter_get (cg_periods (canon_group_at (by_canon R) code)) period \<and>
            0 < counter_get (cg_origins (canon_group_at (by_canon R) code)) origin) \<and>
         (\<not> truthy (md_canon_code m) \<longrightarrow> xml_file \<notin> set (by_canon_paths R)) \<and>
         (\<forall>k. dd_get (by_tradition r') k =
                dd_get (by_tradition r) k @ (if k \<in> set traditions then [xml_file] else [])) \<and>
         (\<forall>k. dd_get (by_period r') k =
                dd_get (by_period r) k @ (if k = period then [xml_file] else [])) \<and>
         (\<forall>k. dd_get (by_origin r') k =
                dd_get (by_origin r) k @ (if k = origin then [xml_file] else [])) \<and>
         detailed_analysis r' = detailed_analysis r @ [detail_record m traditions period origin] \<and>
         (\<forall>c. cg_files (canon_group_at (by_canon r') c) =
                cg_files (canon_group_at (by_canon r) c) @
                (if md_canon_code m = Some c \<and> c \<noteq> [] then [xml_file] else [])) \<and>
         (\<forall>c k. counter_get (cg_traditions (canon_group_at (by_canon r') c)) k =
                  counter_get (cg_traditions (canon_group_at (by_canon r) c)) k +
                  (if md_canon_code m = Some c \<and> c \<noteq> [] \<and> k \<in> set traditions then 1 else 0)) \<and>
         (\<forall>c k. counter_get (cg_periods (canon_group_at (by_canon r') c)) k =
                  counter_get (cg_periods (canon_group_at (by_canon r) c)) k +
                  (if md_canon_code m = Some c \<and> c \<noteq> [] \<and> k = period then 1 else 0)) \<and>
         (\<forall>c k. counter_get (cg_origins (canon_group_at (by_canon r') c)) k =
                  counter_get (cg_origins (canon_group_at (by_canon r) c)) k +
                  (if md_canon_code m = Some c \<and> c \<noteq> [] \<and> k = origin then 1 else 0)) \<and>
         (\<not> truthy (md_canon_code m) \<longrightarrow> by_canon r' = by_canon r)"
proof -
  have path: "md_file_path m = xml_file"
    using assms(8) by (rule extract_metadata_file_path)
  have "filed m traditions period origin (fst (walk h canon_info xml_files))"
    unfolding walk_def traditions_def period_def origin_def
    using assms(7,8) by (rule filed_walk)
  then have a:
    "(\<forall>tradition \<in> set traditions. xml_file \<in> set (dd_get (by_tradition R) tradition)) \<and>
     xml_file \<in> set (dd_get (by_period R) period) \<and>
     xml_file \<in> set (dd_get (by_origin R) origin) \<and>
     detail_record m traditions period origin \<in> set (detailed_analysis R) \<and>
     (\<forall>code. md_canon_code m = Some code \<and> code \<noteq> [] \<longrightarrow>
        xml_file \<in> set (canon_files (by_canon R) code))"
    unfolding filed_def R_def by (simp add: analyze_views path)
  have "tallied m traditions period origin (fst (walk h canon_info xml_files))"
    unfolding walk_def traditions_def period_def origin_def
    using assms(7,8) by (rule tallied_walk)
  then have t:
    "\<forall>code. md_canon_code m = Some code \<and> code \<noteq> [] \<longrightarrow>
        (\<forall>tradition \<in> set traditions.
            0 < counter_get (cg_traditions (canon_group_at (by_canon R) code)) tradition) \<and>
        0 < counter_get (cg_periods (canon_group_at (by_canon R) code)) period \<and>
        0 < counter_get (cg_origins (canon_group_at (by_canon R) code)) origin"
    unfolding tallied_def R_def by (simp add: analyze_views)
  have "set (by_canon_paths R) =
          {p \<in> set xml_files.
             \<exists>m'. extract_metadata h p canon_info = Inr m' \<and> truthy (md_canon_code m')}"
    unfolding R_def
    by (simp add: analyze_views walk_def walk_by_canon_paths initial_results_views)
  then have b: "\<not> truthy (md_canon_code m) \<longrightarrow> xml_file \<notin> set (by_canon_paths R)"
    using assms(8) by simp
  have d: "distinct traditions"
    unfolding traditions_def by (rule distinct_classify_tradition)
  have step: "r' = fold_document m traditions period origin r"
    unfolding r'_def r_def traditions_def period_def origin_def
    by (simp add: process_file_ok [OF assms(8)])
  note eff = fold_document_effect [OF d, where m = m and per = period and org = origin and r = r,
    folded step, unfolded path]
  have s1: "\<forall>k. dd_get (by_tradition r') k =
                dd_get (by_tradition r) k @ (if k \<in> set traditions then [xml_file] else [])"
    using eff(1) by blast
  have s2: "\<forall>k. dd_get (by_period r') k =
                dd_get (by_period r) k @ (if k = period then [xml_file] else [])"
    using eff(2) by blast
  have s3: "\<forall>k. dd_get (by_origin r') k =
                dd_get (by_origin r) k @ (if k = origin then [xml_file] else [])"
    using eff(3) by blast
  have s4: "detailed_analysis r' = detailed_analysis r @ [detail_record m traditions period origin]"
    using eff(4) .
  have s5: "\<forall>c. cg_files (canon_group_at (by_canon r') c) =
                cg_files (canon_group_at (by_canon r) c) @
                (if md_canon_code m = Some c \<and> c \<noteq> [] then [xml_file] else [])"
    using eff(5) by blast
  have s6: "\<forall>c k. counter_get (cg_traditions (canon_group_at (by_canon r') c)) k =
                  counter_get (cg_traditions (canon_group_at (by_canon r) c)) k +
                  (if md_canon_code m = Some c \<and> c \<noteq> [] \<and> k \<in> set traditions then 1 else 0)"
    using eff(6) by blast
  have s7: "\<forall>c k. counter_get (cg_periods (canon_group_at (by_canon r') c)) k =
                  counter_get (cg_periods (canon_group_at (by_canon r) c)) k +
                  (if md_canon_code m = Some c \<and> c \<noteq> [] \<and> k = period then 1 else 0)"
    using eff(7) by blast
  have s8: "\<forall>c k. counter_get (cg_origins (canon_group_at (by_canon r') c)) k =
                  counter_get (cg_origins (canon_group_at (by_canon r) c)) k +
                  (if md_canon_code m = Some c \<and> c \<noteq> [] \<and> k = origin then 1 else 0)"
    using eff(8) by blast
  have s9: "\<not> truthy (md_canon_code m) \<longrightarrow> by_canon r' = by_canon r"
    unfolding step by (simp add: by_canon_fold_document_no_code)
  from a t b s1 s2 s3 s4 s5 s6 s7 s8 s9 show ?thesis by blast
qed

text \<open>
  C5 at the small corpus: the copy of the Platform Sutra under the directory \<open>T\<close> is
  extracted with canon code \<open>T\<close>, is filed in all four indices, and the group of \<open>T\<close>
  counts its three labels once each.
\<close>

theorem successful_document_folded_witness:
  "ustr ''T/T0001_foo.xml'' \<in>
     set [ustr ''plain.xml'', ustr ''broken.xml'', ustr ''T/T0001_foo.xml''] \<and>
   \<not> isl (extract_metadata example_host (ustr ''T/T0001_foo.xml'') example_registry) \<and>
   ustr ''T/T0001_foo.xml'' \<in> set (dd_get (by_tradition (analyze_buddhist_metadata example_host
      example_registry [ustr ''plain.xml'', ustr ''broken.xml'', ustr ''T/T0001_foo.xml'']))
      ''Commentarial'') \<and>
   ustr ''T/T0001_foo.xml'' \<in> set (dd_get (by_period (analyze_buddhist_metadata example_host
      example_registry [ustr ''plain.xml'', ustr ''broken.xml'', ustr ''T/T0001_foo.xml'']))
      ''Song'') \<and>
   ustr ''T/T0001_foo.xml'' \<in> set (dd_get (by_origin (analyze_buddhist_metadata example_host
      example_registry [ustr ''plain.xml'', ustr ''broken.xml'', ustr ''T/T0001_foo.xml'']))
      ''Unknown Origin'') \<and>
   ustr ''T/T0001_foo.xml'' \<in> set (canon_files (by_canon (analyze_buddhist_metadata example_host
      example_registry [ustr ''plain.xml'', ustr ''broken.xml'', ustr ''T/T0001_foo.xml'']))
      (ustr ''T'')) \<and>
   counter_get (cg_traditions (canon_group_at (by_canon (analyze_buddhist_metadata example_host
      example_registry [ustr ''plain.xml'', ustr ''broken.xml'', ustr ''T/T0001_foo.xml'']))
      (ustr ''T''))) ''Commentarial'' = 1 \<and>
   counter_get (cg_periods (canon_group_at (by_canon (analyze_buddhist_metadata example_host
      example_registry [ustr ''plain.xml'', ustr ''broken.xml'', ustr ''T/T0001_foo.xml'']))
      (ustr ''T''))) ''Song'' = 1 \<and>
   counter_get (cg_origins (canon_group_at (by_canon (analyze_buddhist_metadata example_host
      example_registry [ustr ''plain.xml'', ustr ''broken.xml'', ustr ''T/T0001_foo.xml'']))
      (ustr ''T''))) ''Unknown Origin'' = 1"
  using successful_document_folded
          [where h = example_host and canon_info = example_registry
             and xml_file = "ustr ''T/T0001_foo.xml''"
             and xml_files = "[ustr ''plain.xml'', ustr ''broken.xml'', ustr ''T/T0001_foo.xml'']"
             and st = "(initial_results, 0)"
             and m = "\<lparr>md_xml_id = [], md_canon_code = Some (ustr ''T''),
                        md_canon_name = [0x5927, 0x6B63, 0x85CF],
                        md_titles = [[0x516D, 0x7956, 0x58C7, 0x7D93]],
                        md_author = [0x91CB, 0x5B97, 0x5BF6], md_source = [0x5B8B],
                        md_file_path = ustr ''T/T0001_foo.xml''\<rparr>"]
  by (simp add: example_extract example_classification example_str_lower ustr_Nil_iff
        analyze_views example_walk canon_group_at_def counter_get_def)

text \<open>
  C5, as stated, files every extracted document in the index by canon as well. The
  document \<^verbatim>\<open>plain.xml\<close> is extracted, has its detail record, and is in no canon group:
  no canon code was derived for it, and the walker files by canon only under a code.
\<close>

theorem not_filed_by_canon:
  "\<not> isl (extract_metadata example_host (ustr ''plain.xml'') example_registry) \<and>
   ustr ''plain.xml'' \<in> set (detailed_paths (analyze_buddhist_metadata example_host
      example_registry [ustr ''plain.xml'', ustr ''broken.xml'', ustr ''T/T0001_foo.xml''])) \<and>
   ustr ''plain.xml'' \<notin> set (by_canon_paths (analyze_buddhist_metadata example_host
      example_registry [ustr ''plain.xml'', ustr ''broken.xml'', ustr ''T/T0001_foo.xml'']))"
  by (simp add: example_extract analyze_views example_walk by_canon_paths_def group_files_def
        detailed_paths_def ustr_eq_iff)

subsection \<open>C6: no tradition keyword\<close>

text \<open>
  C6. When no keyword of any entry of the tradition table occurs in the lower-cased
  concatenation of titles, author and source, \<^verbatim>\<open>classify_tradition\<close> returns exactly the
  one-element list ``General/Unspecified''.
\<close>

theorem classify_tradition_default:
  assumes "\<forall>(tradition, kws) \<in> set TRADITION_CLASSIFICATIONS. \<forall>keyword \<in> set kws.
             \<not> occurs_in (lower keyword) (lower (join_sp (titles @ [author] @ [source])))"
  shows "classify_tradition lower titles author source = [''General/Unspecified'']"
  using assms by (simp add: classify_tradition_def Let_def matched_traditions_Nil_iff)

text \<open>C6 at the titles ``Sutra'' and ``SUTTA'' with empty author and source.\<close>

theorem classify_tradition_default_witness:
  "classify_tradition ascii_lower [ustr ''Sutra'', ustr ''SUTTA''] [] [] = [''General/Unspecified'']"
  by (rule classify_tradition_default)
     (simp add: TRADITION_CLASSIFICATIONS_def ascii_lower_def ustr_def)

subsection \<open>C7: one period, one origin\<close>

text \<open>
  C7. \<^verbatim>\<open>classify_period\<close> returns one label, a label of the period table or the sentinel
  ``Unknown Period'', never the empty string, and the sentinel when no entry matches;
  \<^verbatim>\<open>classify_geographic\<close> likewise, with the origin table and ``Unknown Origin''. Neither has
  a failing branch.
\<close>

theorem one_period_one_origin:
  fixes author source titles
  defines "tc \<equiv> join_sp ([author, source] @ titles)"
  shows "classify_period author source titles
           \<in> set (map fst DYNASTY_PERIODS @ [''Unknown Period'']) \<and>
         classify_period author source titles \<noteq> [] \<and>
         ((\<forall>i < length DYNASTY_PERIODS. \<not> entry_matches DYNASTY_PERIODS i tc) \<longrightarrow>
            classify_period author source titles = ''Unknown Period'') \<and>
         classify_geographic author source titles
           \<in> set (map fst GEOGRAPHIC_ORIGINS @ [''Unknown Origin'']) \<and>
         classify_geographic author source titles \<noteq> [] \<and>
         ((\<forall>i < length GEOGRAPHIC_ORIGINS. \<not> entry_matches GEOGRAPHIC_ORIGINS i tc) \<longrightarrow>
            classify_geographic author source titles = ''Unknown Origin'')"
proof -
  have p: "classify_period author source titles
             \<in> set (map fst DYNASTY_PERIODS @ [''Unknown Period''])"
    using first_match_Some_label [of DYNASTY_PERIODS tc]
    by (cases "first_match DYNASTY_PERIODS tc") (simp_all add: classify_period_eq tc_def)
  have g: "classify_geographic author source titles
             \<in> set (map fst GEOGRAPHIC_ORIGINS @ [''Unknown Origin''])"
    using first_match_Some_label [of GEOGRAPHIC_ORIGINS tc]
    by (cases "first_match GEOGRAPHIC_ORIGINS tc") (simp_all add: classify_geographic_def tc_def)
  have pn: "[] \<notin> set (map fst DYNASTY_PERIODS @ [''Unknown Period''])"
    by (simp add: DYNASTY_PERIODS_def)
  have gn: "[] \<notin> set (map fst GEOGRAPHIC_ORIGINS @ [''Unknown Origin''])"
    by (simp add: GEOGRAPHIC_ORIGINS_def)
  have p0: "classify_period author source titles \<noteq> []" using p pn by metis
  have g0: "classify_geographic author source titles \<noteq> []" using g gn by metis
  have ps: "(\<forall>i < length DYNASTY_PERIODS. \<not> entry_matches DYNASTY_PERIODS i tc) \<longrightarrow>
            classify_period author source titles = ''Unknown Period''"
    using first_match_None_entries [of DYNASTY_PERIODS tc]
    by (auto simp: classify_period_eq tc_def)
  have gs: "(\<forall>i < length GEOGRAPHIC_ORIGINS. \<not> entry_matches GEOGRAPHIC_ORIGINS i tc) \<longrightarrow>
            classify_geographic author source titles = ''Unknown Origin''"
    using first_match_None_entries [of GEOGRAPHIC_ORIGINS tc]
    by (auto simp: classify_geographic_def tc_def)
  from p p0 ps g g0 gs show ?thesis by blast
qed

text \<open>C7 at the author ``anon'' with empty source and no title: both sentinels.\<close>

theorem one_period_one_origin_witness:
  "first_match DYNASTY_PERIODS (join_sp ([ustr ''anon'', []] @ [])) = None \<and>
   classify_period (ustr ''anon'') [] [] = ''Unknown Period'' \<and>
   first_match GEOGRAPHIC_ORIGINS (join_sp ([ustr ''anon'', []] @ [])) = None \<and>
   classify_geographic (ustr ''anon'') [] [] = ''Unknown Origin''"
proof -
  have a: "\<forall>e \<in> set DYNASTY_PERIODS.
             \<not> any_keyword_in (snd e) (join_sp ([ustr ''anon'', []] @ []))"
    by (simp add: DYNASTY_PERIODS_def ustr_def)
  have b: "\<forall>e \<in> set GEOGRAPHIC_ORIGINS.
             \<not> any_keyword_in (snd e) (join_sp ([ustr ''anon'', []] @ []))"
    by (simp add: GEOGRAPHIC_ORIGINS_def ustr_def)
  have a': "\<forall>i < length DYNASTY_PERIODS.
      \<not> entry_matches DYNASTY_PERIODS i (join_sp ([ustr ''anon'', []] @ []))"
    using a by (simp add: entry_matches_def)
  have b': "\<forall>i < length GEOGRAPHIC_ORIGINS.
      \<not> entry_matches GEOGRAPHIC_ORIGINS i (join_sp ([ustr ''anon'', []] @ []))"
    using b by (simp add: entry_matches_def)
  from a' b' one_period_one_origin [of "ustr ''anon''" "[]" "[]"]
  show ?thesis by (simp add: first_match_None_entries)
qed

subsection \<open>C8: the size of the tradition table\<close>

text \<open>
  C8, as amended. The tradition table has exactly 14 entries, and every entry has at least
  3 and at most 9 keywords.
\<close>

theorem tradition_table_size:
  "length TRADITION_CLASSIFICATIONS = 14 \<and>
   list_all (\<lambda>(tradition, kws). 3 \<le> length kws \<and> length kws \<le> 9) TRADITION_CLASSIFICATIONS"
  by (simp add: TRADITION_CLASSIFICATIONS_def)

text \<open>
  C8, as stated, counts 15 entries of 3 to 8 keywords each. The table has 14 entries, and
  its first entry, ``Chan/Zen'', has 9 keywords.
\<close>

theorem tradition_table_not_fifteen:
  "length TRADITION_CLASSIFICATIONS \<noteq> 15 \<and>
   fst (TRADITION_CLASSIFICATIONS ! 0) = ''Chan/Zen'' \<and>
   length (snd (TRADITION_CLASSIFICATIONS ! 0)) = 9 \<and>
   \<not> (length TRADITION_CLASSIFICATIONS = 15 \<and>
      list_all (\<lambda>(tradition, kws). 3 \<le> length kws \<and> length kws \<le> 8)
        TRADITION_CLASSIFICATIONS)"
  by (simp add: TRADITION_CLASSIFICATIONS_def)

subsection \<open>C9: the fallbacks of the period classifier\<close>

text \<open>
  C9. \<^verbatim>\<open>classify_period\<close> equals the function that scans the dynasty table and defaults to
  ``Unknown Period'': every keyword its three fallback branches test is a keyword of some
  table entry, so no fallback is reached once the scan has failed. In particular the
  result is never ``Traditional Chinese Buddhism''.
\<close>

theorem classify_period_fallbacks_unreachable:
  "classify_period author source titles = classify_period_table_only author source titles \<and>
   classify_period author source titles \<noteq> ''Traditional Chinese Buddhism''"
proof -
  let ?m = "first_match DYNASTY_PERIODS (join_sp ([author, source] @ titles))"
  have eq: "classify_period author source titles =
              classify_period_table_only author source titles"
    by (simp only: classify_period_eq classify_period_table_only_def)
  have "classify_period_table_only author source titles \<noteq> ''Traditional Chinese Buddhism''"
  proof (cases ?m)
    case None
    then show ?thesis by (simp add: classify_period_table_only_def)
  next
    case (Some p)
    from first_match_Some_label [OF Some] have "p \<noteq> ''Traditional Chinese Buddhism''"
      by (auto simp: DYNASTY_PERIODS_def)
    with Some show ?thesis by (simp add: classify_period_table_only_def)
  qed
  with eq show ?thesis by simp
qed

subsection \<open>C10: the sentinel tradition\<close>

text \<open>
  C10. The result of \<^verbatim>\<open>classify_tradition\<close> contains ``General/Unspecified'' exactly when
  no tradition keyword occurs in the text; it is then the one-element list of the
  sentinel; and a result that contains the sentinel contains no label of the table.
\<close>

theorem sentinel_iff_no_match:
  fixes lower titles author source
  defines "tc \<equiv> lower (join_sp (titles @ [author] @ [source]))"
  defines "res \<equiv> classify_tradition lower titles author source"
  defines "no_match \<equiv> (\<forall>(tradition, kws) \<in> set TRADITION_CLASSIFICATIONS.
                         \<forall>keyword \<in> set kws. \<not> occurs_in (lower keyword) tc)"
  shows "(''General/Unspecified'' \<in> set res \<longleftrightarrow> no_match) \<and>
         (no_match \<longrightarrow> res = [''General/Unspecified'']) \<and>
         (''General/Unspecified'' \<in> set res \<longrightarrow>
            (\<forall>tradition \<in> set (map fst TRADITION_CLASSIFICATIONS). tradition \<notin> set res))"
proof -
  let ?ms = "matched_traditions lower TRADITION_CLASSIFICATIONS tc"
  have nm: "no_match \<longleftrightarrow> ?ms = []"
    unfolding no_match_def by (simp only: matched_traditions_Nil_iff)
  have res: "res = (if ?ms \<noteq> [] then ?ms else [''General/Unspecified''])"
    unfolding res_def tc_def by (simp add: classify_tradition_def Let_def)
  have notin: "''General/Unspecified'' \<notin> set ?ms"
    using matched_traditions_labels [of lower TRADITION_CLASSIFICATIONS tc] sentinel_not_a_label
    by blast
  have a: "''General/Unspecified'' \<in> set res \<longleftrightarrow> no_match"
    using notin by (simp add: res nm)
  have b: "no_match \<longrightarrow> res = [''General/Unspecified'']"
    by (simp add: res nm)
  have c: "''General/Unspecified'' \<in> set res \<longrightarrow>
            (\<forall>tradition \<in> set (map fst TRADITION_CLASSIFICATIONS). tradition \<notin> set res)"
  proof
    assume "''General/Unspecified'' \<in> set res"
    with a b have "res = [''General/Unspecified'']" by blast
    then show "\<forall>tradition \<in> set (map fst TRADITION_CLASSIFICATIONS). tradition \<notin> set res"
      using sentinel_not_a_label by force
  qed
  from a b c show ?thesis by blast
qed

text \<open>
  C10 at the title ``Sutra'', which holds no keyword, and at the title ``ZEN Sutra'', which
  holds one of ``Chan/Zen''.
\<close>

theorem sentinel_iff_no_match_witness:
  "''General/Unspecified'' \<in> set (classify_tradition ascii_lower [ustr ''Sutra''] [] []) \<and>
   classify_tradition ascii_lower [ustr ''Sutra''] [] [] = [''General/Unspecified''] \<and>
   ''General/Unspecified'' \<notin> set (classify_tradition ascii_lower [ustr ''ZEN Sutra''] [] [])"
  using sentinel_iff_no_match [of ascii_lower "[ustr ''Sutra'']" "[]" "[]"]
        sentinel_iff_no_match [of ascii_lower "[ustr ''ZEN Sutra'']" "[]" "[]"]
  by (simp add: TRADITION_CLASSIFICATIONS_def ascii_lower_def ustr_def)

end
